theory Spec2Isabelle
  imports Complex_Main "HOL-Library.Sublist" "HOL-Library.AList"
begin

section \<open>Python values, exceptions and effects\<close>

text \<open>
  A Python \<^verbatim>\<open>float\<close>: a finite value, kept as the rational number it stands for, an
  infinity, or not-a-number. Arithmetic on finite values is exact here; the rounding of
  floating point is not modelled.
\<close>

datatype pyfloat = Finite rat | Infinity | Neg_infinity | NaN

text \<open>
  The pipeline module \<^verbatim>\<open>etl_project/pipelines/earthquakes.py\<close> handles two kinds of
  dynamically typed data: the parsed YAML configuration and the GeoJSON-like feed. Both
  are nested mappings, lists and scalars; one datatype covers them. \<open>JNull\<close> is
  Python's \<^verbatim>\<open>None\<close> (and the null cell of a table), \<open>JNum\<close> an \<^verbatim>\<open>int\<close> and
  \<open>JFloat\<close> a \<^verbatim>\<open>float\<close>.
\<close>

datatype json =
    JNull
  | JBool bool
  | JNum int
  | JFloat pyfloat
  | JStr string
  | JArr "json list"
  | JObj "(string \<times> json) list"

text \<open>
  Exceptions are values. \<open>KeyboardInterrupt\<close> and \<open>SystemExit\<close> derive from
  \<^verbatim>\<open>BaseException\<close> only; the others derive from \<^verbatim>\<open>Exception\<close>. \<open>FetchError\<close>,
  \<open>TransformError\<close> and \<open>LoadError\<close> are the names the specification gives to the
  failures of the feed client, of the transformer and of the relational sink.
\<close>

datatype exn =
    Exception string
  | AttributeError string
  | TypeError string
  | ValueError string
  | OverflowError string
  | FetchError string
  | TransformError string
  | LoadError string
  | KeyboardInterrupt
  | SystemExit

datatype exc_class = BaseException_class | Exception_class

fun isinstance :: "exn \<Rightarrow> exc_class \<Rightarrow> bool" where
  "isinstance e BaseException_class = True"
| "isinstance KeyboardInterrupt Exception_class = False"
| "isinstance SystemExit Exception_class = False"
| "isinstance e Exception_class = True"

text \<open>
  An f-string is kept as its parts: the literal text and the values formatted into it.
  This avoids modelling \<^verbatim>\<open>str()\<close> of every Python value.
\<close>

datatype fpart = Lit string | Fmt json | Fmt_exn exn

type_synonym fstring = "fpart list"

datatype level = INFO | ERROR

text \<open>
  A log line: the time it was written (in seconds, as every time of the model), its level
  and its message.
\<close>

type_synonym log_line = "rat \<times> level \<times> fstring"

datatype MetaDataLoggingStatus = RUN_SUCCESS | RUN_FAILURE

record run_record =
  rr_pipeline_name :: json
  rr_timestamp :: rat
  rr_status :: "MetaDataLoggingStatus option"
  rr_logs :: "log_line list option"

text \<open>SQLAlchemy column and table definitions, as the pipeline writes them.\<close>

datatype sql_type = String | String_n nat | TIMESTAMP | NUMERIC

record column =
  col_name :: string
  col_type :: sql_type
  primary_key :: bool

record table_def =
  tbl_name :: fstring
  tbl_columns :: "column list"

definition Column :: "string \<Rightarrow> sql_type \<Rightarrow> column" where
  "Column n t = \<lparr>col_name = n, col_type = t, primary_key = False\<rparr>"

definition Column_pk :: "string \<Rightarrow> sql_type \<Rightarrow> column" where
  "Column_pk n t = \<lparr>col_name = n, col_type = t, primary_key = True\<rparr>"

type_synonym row = "(string \<times> json) list"

record db_table =
  db_schema :: "column list"
  db_rows :: "row list"

text \<open>A feature of the feed is a nested mapping; a collection is a sequence of them.\<close>

type_synonym feature = "(string \<times> json) list"

record projected_table =
  columns :: "string list"
  cells :: "json list list"

datatype load_method = Upsert

text \<open>
  What the relational sink's next call meets: the connection fails, or the row at an
  index is rejected (a constraint violation unrelated to the key).
\<close>

datatype load_fault = Connection_failed exn | Row_rejected nat exn

text \<open>
  The calls the pipeline makes to its collaborators, in order, and the scheduler's own
  events. The trace is a record of what was called with what; no operation reads it.
\<close>

datatype call =
    Call_extract json json json json json
  | Call_transform "string list"
  | Call_load fstring load_method
  | Call_metadata_log "MetaDataLoggingStatus option"
  | Job_begin
  | Job_end
  | Call_run_pending
  | Call_sleep rat

text \<open>
  The world the process runs in: the clock (in seconds; the calendar's first and last
  years are not modelled, the clock has no end), the environment variables, the files,
  the run logger's buffer and handlers, the metadata table of the logging database, the
  tables of the primary database, and what the outside will answer to the next calls (the
  feed's responses, the sink's faults, the logging database's faults).
\<close>

record world =
  now :: rat
  environ :: "(string \<times> string) list"
  files :: "(string \<times> json) list"
  run_logs :: "log_line list"
  handlers :: nat
  metadata_table :: "run_record list"
  database :: "(fstring \<times> db_table) list"
  feed_script :: "(exn + json) list"
  load_script :: "load_fault option list"
  meta_script :: "exn option list"
  calls :: "call list"

text \<open>
  A statement takes the world and gives back the world it leaves, with either the value
  it returns (\<open>Inr\<close>) or the exception it raises (\<open>Inl\<close>). Effects made before a raise
  stay made.
\<close>

type_synonym 'a prog = "world \<Rightarrow> (exn + 'a) \<times> world"

definition returns :: "'a \<Rightarrow> 'a prog" where
  "returns x = (\<lambda>w. (Inr x, w))"

definition raise :: "exn \<Rightarrow> 'a prog" where
  "raise e = (\<lambda>w. (Inl e, w))"

definition lift :: "exn + 'a \<Rightarrow> 'a prog" where
  "lift r = (\<lambda>w. (r, w))"

definition bind :: "'a prog \<Rightarrow> ('a \<Rightarrow> 'b prog) \<Rightarrow> 'b prog" where
  "bind m f = (\<lambda>w. case m w of (Inl e, w') \<Rightarrow> (Inl e, w') | (Inr x, w') \<Rightarrow> f x w')"

definition seq :: "'a prog \<Rightarrow> 'b prog \<Rightarrow> 'b prog" where
  "seq m k = bind m (\<lambda>_. k)"

text \<open>
  \<^verbatim>\<open>try: body except cls as e: handler(e)\<close>. The handler runs in the world the body
  left; an exception the handler raises is not caught.
\<close>

definition try_except :: "'a prog \<Rightarrow> exc_class \<Rightarrow> (exn \<Rightarrow> 'a prog) \<Rightarrow> 'a prog" where
  "try_except body cls handler =
     (\<lambda>w. case body w of
        (Inl e, w') \<Rightarrow> if isinstance e cls then handler e w' else (Inl e, w')
      | (Inr x, w') \<Rightarrow> (Inr x, w'))"

definition record_call :: "call \<Rightarrow> unit prog" where
  "record_call c = (\<lambda>w. (Inr (), w\<lparr>calls := calls w @ [c]\<rparr>))"

text \<open>
  \<^verbatim>\<open>d.get(k)\<close>: the value under the key, \<^verbatim>\<open>None\<close> when the key is absent, and an
  \<^verbatim>\<open>AttributeError\<close> when \<open>d\<close> is not a mapping (\<^verbatim>\<open>None\<close>, a string, a number and a
  list have no \<^verbatim>\<open>get\<close>).
\<close>

fun dict_get :: "json \<Rightarrow> string \<Rightarrow> exn + json" where
  "dict_get (JObj kvs) k = Inr (case map_of kvs k of Some v \<Rightarrow> v | None \<Rightarrow> JNull)"
| "dict_get _ k = Inl (AttributeError ''get'')"

definition os_environ_get :: "string \<Rightarrow> json prog" where
  "os_environ_get k =
     (\<lambda>w. (Inr (case map_of (environ w) k of Some v \<Rightarrow> JStr v | None \<Rightarrow> JNull), w))"


section \<open>The collaborators of the pipeline\<close>

text \<open>
  Modelled from the spec: the class \<^verbatim>\<open>PostgreSqlClient\<close> of
  \<^verbatim>\<open>etl_project.connectors.postgresql\<close> is not among the sources. A client holds the
  five connection parameters it is created with; the databases themselves are the
  world's.
\<close>

record pg_client =
  server_name :: json
  database_name :: json
  username :: json
  password :: json
  port :: json

definition PostgreSqlClient :: "json \<Rightarrow> json \<Rightarrow> json \<Rightarrow> json \<Rightarrow> json \<Rightarrow> pg_client" where
  "PostgreSqlClient s d u p n =
     \<lparr>server_name = s, database_name = d, username = u, password = p, port = n\<rparr>"

subsection \<open>Run Logger\<close>

text \<open>
  Modelled from the spec: the class \<^verbatim>\<open>PipelineLogging\<close> of
  \<^verbatim>\<open>etl_project.assets.pipeline_logging\<close> is not among the sources. The specification's
  Run Logger appends timestamped lines for the current run and returns the accumulated
  text on request. Creating one starts an empty buffer with a handler attached.
\<close>

definition PipelineLogging :: "json \<Rightarrow> json \<Rightarrow> unit prog" where
  "PipelineLogging pipeline_name log_folder_path =
     (\<lambda>w. (Inr (), w\<lparr>run_logs := [], handlers := Suc (handlers w)\<rparr>))"

text \<open>
  Modelled from the spec: \<^verbatim>\<open>logger.info(msg)\<close> and \<^verbatim>\<open>logger.error(msg)\<close> append a
  line with the current time to the run's log.
\<close>

definition logger_info :: "fstring \<Rightarrow> unit prog" where
  "logger_info msg = (\<lambda>w. (Inr (), w\<lparr>run_logs := run_logs w @ [(now w, INFO, msg)]\<rparr>))"

definition logger_error :: "fstring \<Rightarrow> unit prog" where
  "logger_error msg = (\<lambda>w. (Inr (), w\<lparr>run_logs := run_logs w @ [(now w, ERROR, msg)]\<rparr>))"

text \<open>
  Modelled from the spec: \<^verbatim>\<open>get_logs()\<close> returns the lines accumulated so far;
  \<^verbatim>\<open>logger.handlers.clear()\<close> detaches the handlers.
\<close>

definition get_logs :: "log_line list prog" where
  "get_logs = (\<lambda>w. (Inr (run_logs w), w))"

definition handlers_clear :: "unit prog" where
  "handlers_clear = (\<lambda>w. (Inr (), w\<lparr>handlers := 0\<rparr>))"

subsection \<open>Metadata Recorder\<close>

text \<open>
  Modelled from the spec: the recorder object, made of the arguments
  \<^verbatim>\<open>MetaDataLogging(pipeline_name, postgresql_client, config)\<close> is created with.
\<close>

record metadata_logger =
  ml_pipeline_name :: json
  ml_postgresql_client :: pg_client
  ml_config :: json

definition MetaDataLogging :: "json \<Rightarrow> pg_client \<Rightarrow> json \<Rightarrow> metadata_logger" where
  "MetaDataLogging pipeline_name postgresql_client config =
     \<lparr>ml_pipeline_name = pipeline_name, ml_postgresql_client = postgresql_client,
      ml_config = config\<rparr>"

text \<open>What the logging database answers to the next call: a fault, or nothing to report.\<close>

definition next_meta_fault :: "world \<Rightarrow> exn option" where
  "next_meta_fault w = (case meta_script w of [] \<Rightarrow> None | f # _ \<Rightarrow> f)"

text \<open>
  Modelled from the spec: the class \<^verbatim>\<open>MetaDataLogging\<close> of
  \<^verbatim>\<open>etl_project.assets.metadata_logging\<close> is not among the sources. The specification's
  \<^verbatim>\<open>log(status=None, logs=None)\<close> inserts one row into the metadata table on every
  call (never an update), and a failure of the call propagates to its caller. Whether the
  call fails is the logging database's answer \<open>next_meta_fault\<close>; a failed call writes
  no row.
\<close>

definition metadata_log ::
  "metadata_logger \<Rightarrow> MetaDataLoggingStatus option \<Rightarrow> log_line list option \<Rightarrow> unit prog" where
  "metadata_log metadata_logger status logs =
     seq (record_call (Call_metadata_log status))
       (\<lambda>w. case next_meta_fault w of
               None \<Rightarrow>
                 (Inr (), w\<lparr>meta_script := tl (meta_script w),
                             metadata_table := metadata_table w @
                               [\<lparr>rr_pipeline_name = ml_pipeline_name metadata_logger,
                                 rr_timestamp = now w, rr_status = status,
                                 rr_logs = logs\<rparr>]\<rparr>)
             | Some e \<Rightarrow> (Inl e, w\<lparr>meta_script := tl (meta_script w)\<rparr>))"

subsection \<open>Feed Client\<close>

text \<open>
  Modelled from the spec: the class \<^verbatim>\<open>EarthquakesApiClient\<close> of
  \<^verbatim>\<open>etl_project.connectors.earthquakes\<close> is not among the sources. A client holds the
  base URL and the method it is created with.
\<close>

record api_client =
  base_url :: json
  http_method :: json

definition EarthquakesApiClient :: "json \<Rightarrow> json \<Rightarrow> api_client" where
  "EarthquakesApiClient b m = \<lparr>base_url = b, http_method = m\<rparr>"

text \<open>What the feed answers to the next request; an exhausted script is an empty collection.\<close>

definition next_feed :: "world \<Rightarrow> exn + json" where
  "next_feed w = (case feed_script w of [] \<Rightarrow> Inr (JArr []) | r # _ \<Rightarrow> r)"

text \<open>
  Modelled from the spec: \<^verbatim>\<open>extract_earthquakes_data\<close> of
  \<^verbatim>\<open>etl_project.assets.earthquakes\<close> is not among the sources. The specification's
  \<^verbatim>\<open>fetch\<close> issues one network call and either returns what the feed sent (the
  feature collection) or fails (a non-2xx response, a transport error), without retrying.
  The response is the feed's answer \<open>next_feed\<close>.
\<close>

definition extract_earthquakes_data ::
  "api_client \<Rightarrow> json \<Rightarrow> json \<Rightarrow> json \<Rightarrow> json prog" where
  "extract_earthquakes_data earthquakes_client start_time end_time layer_name =
     seq (record_call (Call_extract (base_url earthquakes_client)
            (http_method earthquakes_client) start_time end_time layer_name))
       (\<lambda>w. (next_feed w, w\<lparr>feed_script := tl (feed_script w)\<rparr>))"

subsection \<open>Transformer\<close>

text \<open>
  Modelled from the spec: flattening, as the specification's glossary has it. A nested
  mapping becomes flat keys joined by dots; any other value (a scalar, a list) is a cell
  under the path that leads to it.
\<close>

definition join_path :: "string \<Rightarrow> string \<Rightarrow> string" where
  "join_path p k = (if p = [] then k else p @ ''.'' @ k)"

fun flatten_value :: "string \<Rightarrow> json \<Rightarrow> row"
  and flatten_fields :: "string \<Rightarrow> (string \<times> json) list \<Rightarrow> row" where
  "flatten_value p (JObj kvs) = flatten_fields p kvs"
| "flatten_value p v = [(p, v)]"
| "flatten_fields p [] = []"
| "flatten_fields p ((k, v) # kvs) = flatten_value (join_path p k) v @ flatten_fields p kvs"

text \<open>
  Modelled from the spec: the cell a feature gives for a requested path, null when the
  feature lacks the path.
\<close>

definition cell_of :: "feature \<Rightarrow> string \<Rightarrow> json" where
  "cell_of f path = (case map_of (flatten_fields [] f) path of Some v \<Rightarrow> v | None \<Rightarrow> JNull)"

text \<open>
  Modelled from the spec: \<^verbatim>\<open>transform\<close> of \<^verbatim>\<open>etl_project.assets.earthquakes\<close> is not
  among the sources. The specification's \<^verbatim>\<open>project\<close> flattens each feature, selects
  exactly the requested paths in their order, drops every other field, and gives a null
  cell where a feature lacks a requested path. It is pure.
\<close>

definition transform :: "feature list \<Rightarrow> string list \<Rightarrow> projected_table" where
  "transform df selection_list =
     \<lparr>columns = selection_list,
      cells = map (\<lambda>f. map (cell_of f) selection_list) df\<rparr>"

text \<open>
  Modelled from the spec: the shape the transformer expects of what the extraction
  returned, a sequence of features, each of them a mapping.
\<close>

fun features_of_list :: "json list \<Rightarrow> feature list option" where
  "features_of_list [] = Some []"
| "features_of_list (JObj kvs # xs) =
     (case features_of_list xs of Some fs \<Rightarrow> Some (kvs # fs) | None \<Rightarrow> None)"
| "features_of_list (_ # xs) = None"

fun features_of :: "json \<Rightarrow> feature list option" where
  "features_of (JArr xs) = features_of_list xs"
| "features_of _ = None"

subsection \<open>Relational Sink\<close>

text \<open>
  Modelled from the spec: the key of a row is what it holds in the schema's primary-key
  columns.
\<close>

definition primary_key_of :: "column list \<Rightarrow> string list" where
  "primary_key_of schema = map col_name (filter primary_key schema)"

definition key_of :: "column list \<Rightarrow> row \<Rightarrow> json option list" where
  "key_of schema r = map (map_of r) (primary_key_of schema)"

text \<open>
  Modelled from the spec: a stored row has the schema's columns, in the schema's order; a
  missing cell is null.
\<close>

definition conform :: "column list \<Rightarrow> row \<Rightarrow> row" where
  "conform schema r =
     map (\<lambda>c. (col_name c, case map_of r (col_name c) of Some v \<Rightarrow> v | None \<Rightarrow> JNull)) schema"

text \<open>
  Modelled from the spec: the upsert primitive of \<^verbatim>\<open>etl_project.connectors.postgresql\<close>
  is not among the sources. The specification's upsert inserts a row whose primary-key
  value is absent and otherwise updates all non-key columns of the row with that key
  ("insert or replace").
\<close>

definition upsert_row :: "column list \<Rightarrow> row \<Rightarrow> row list \<Rightarrow> row list" where
  "upsert_row schema r stored =
     (let new = conform schema r in
      if list_ex (\<lambda>old. key_of schema old = key_of schema new) stored
      then map (\<lambda>old. if key_of schema old = key_of schema new then new else old) stored
      else stored @ [new])"

text \<open>
  Modelled from the spec: the rows of a projected table, each cell under its column; the
  sink's next fault; and the writing of rows, which creates the table when it is absent
  and upserts the rows one by one.
\<close>

definition rows_of :: "projected_table \<Rightarrow> row list" where
  "rows_of df = map (zip (columns df)) (cells df)"

definition next_load_fault :: "load_fault option prog" where
  "next_load_fault =
     (\<lambda>w. (Inr (case load_script w of [] \<Rightarrow> None | f # _ \<Rightarrow> f),
           w\<lparr>load_script := tl (load_script w)\<rparr>))"

definition write_rows :: "table_def \<Rightarrow> row list \<Rightarrow> unit prog" where
  "write_rows table rs =
     (\<lambda>w. let existing = (case map_of (database w) (tbl_name table) of
                            Some t \<Rightarrow> t
                          | None \<Rightarrow> \<lparr>db_schema = tbl_columns table, db_rows = []\<rparr>);
               stored = fold (upsert_row (tbl_columns table)) rs (db_rows existing)
           in (Inr (), w\<lparr>database :=
                 AList.update (tbl_name table) (existing\<lparr>db_rows := stored\<rparr>) (database w)\<rparr>))"

text \<open>
  Modelled from the spec: \<^verbatim>\<open>load\<close> of \<^verbatim>\<open>etl_project.assets.earthquakes\<close> is not among
  the sources. The specification's Relational Sink creates the destination table when it
  is absent and upserts the rows one by one; a connection failure writes nothing, and a
  rejected row aborts the remaining rows of the call, the rows before it staying written.
  The SQLAlchemy \<^verbatim>\<open>MetaData\<close> registry the source passes along carries no behaviour
  of its own and is left out.
\<close>

definition load ::
  "projected_table \<Rightarrow> pg_client \<Rightarrow> table_def \<Rightarrow> load_method \<Rightarrow> unit prog" where
  "load df postgresql_client table method =
     seq (record_call (Call_load (tbl_name table) method))
       (bind next_load_fault (\<lambda>fault.
          case fault of
            Some (Connection_failed e) \<Rightarrow> raise e
          | Some (Row_rejected k e) \<Rightarrow>
              if k < length (rows_of df)
              then seq (write_rows table (take k (rows_of df))) (raise e)
              else write_rows table (rows_of df)
          | None \<Rightarrow> write_rows table (rows_of df)))"


section \<open>The pipeline\<close>

text \<open>The two selection lists and the two table definitions written in \<^verbatim>\<open>pipeline\<close>.\<close>

definition selection_list_1 :: "string list" where
  "selection_list_1 =
     [''type'',
      ''id'',
      ''properties.place'',
      ''properties.title'',
      ''properties.time'',
      ''properties.updated'',
      ''properties.nst'',
      ''properties.dmin'',
      ''properties.rms'']"

definition selection_list_2 :: "string list" where
  "selection_list_2 =
     [''id'',
      ''properties.mag'',
      ''properties.gap'',
      ''properties.magType'',
      ''geometry.coordinates'']"

definition table :: "json \<Rightarrow> table_def" where
  "table table_name =
     \<lparr>tbl_name = [Lit ''table_'', Fmt table_name, Lit ''_data''],
      tbl_columns =
        [Column ''type'' String,
         Column_pk ''id'' String,
         Column ''properties.place'' String,
         Column ''properties.title'' String,
         Column ''properties.time'' TIMESTAMP,
         Column ''properties.updated'' TIMESTAMP,
         Column ''properties.nst'' (String_n 500),
         Column ''properties.dmin'' (String_n 500),
         Column ''properties.rms'' (String_n 500)]\<rparr>"

definition table2 :: "json \<Rightarrow> table_def" where
  "table2 table_name =
     \<lparr>tbl_name = [Lit ''table_'', Fmt table_name, Lit ''_2_data''],
      tbl_columns =
        [Column_pk ''id'' String,
         Column ''properties.mag'' (String_n 500),
         Column ''properties.gap'' NUMERIC,
         Column ''properties.magType'' String,
         Column ''geometry.coordinates'' String]\<rparr>"

text \<open>
  Modelled from the spec: the call \<^verbatim>\<open>transform(df=..., selection_list=...)\<close> made by
  the pipeline. The specification names the transformer among the sources of a run's
  exceptions (\<open>TransformError\<close>, an unexpected shape): the call raises when what the
  extraction returned is not a sequence of features, and projects it otherwise. It is
  pure: its outcome depends on its arguments only. The call is recorded in the trace so
  that the number of calls and their arguments can be stated.
\<close>

definition call_transform :: "json \<Rightarrow> string list \<Rightarrow> projected_table prog" where
  "call_transform df selection_list =
     seq (record_call (Call_transform selection_list))
       (case features_of df of
          Some features \<Rightarrow> returns (transform features selection_list)
        | None \<Rightarrow> raise (TransformError ''unexpected shape''))"

text \<open>\<^verbatim>\<open>def pipeline(config, pipeline_logging)\<close>, statement by statement.\<close>

definition pipeline :: "json \<Rightarrow> unit prog" where
  "pipeline config =
     seq (logger_info [Lit ''Starting pipeline run''])
    (seq (logger_info [Lit ''Getting ENV variables''])
    (bind (os_environ_get ''SERVER_NAME'') (\<lambda>SERVER_NAME.
     bind (os_environ_get ''DATABASE_NAME'') (\<lambda>DATABASE_NAME.
     bind (os_environ_get ''DB_USERNAME'') (\<lambda>DB_USERNAME.
     bind (os_environ_get ''DB_PASSWORD'') (\<lambda>DB_PASSWORD.
     bind (os_environ_get ''PORT'') (\<lambda>PORT.
     bind (lift (dict_get config ''base_url'')) (\<lambda>base_url.
     bind (lift (dict_get config ''method'')) (\<lambda>method.
     seq (logger_info [Lit ''Creating Earthquake API client''])
    (seq (logger_info [Lit ''Extracting data from Earthquake API''])
    (bind (lift (dict_get config ''start_time'')) (\<lambda>start_time.
     bind (lift (dict_get config ''end_time'')) (\<lambda>end_time.
     bind (lift (dict_get config ''layer_name'')) (\<lambda>layer_name.
     bind (extract_earthquakes_data (EarthquakesApiClient base_url method)
             start_time end_time layer_name) (\<lambda>df_earthquakes.
     seq (logger_info [Lit ''Transform dataframes''])
    (bind (call_transform df_earthquakes selection_list_1) (\<lambda>df_transformed_table_1.
     bind (call_transform df_earthquakes selection_list_2) (\<lambda>df_transformed_table_2.
     seq (logger_info [Lit ''Loading data to postgres''])
    (bind (lift (dict_get config ''table_name'')) (\<lambda>table_name_1.
     bind (lift (dict_get config ''table_name'')) (\<lambda>table_name_2.
     seq (load df_transformed_table_1
            (PostgreSqlClient SERVER_NAME DATABASE_NAME DB_USERNAME DB_PASSWORD PORT)
            (table table_name_1) Upsert)
    (seq (logger_info [Lit ''Pipeline run successful Table 1''])
    (seq (load df_transformed_table_2
            (PostgreSqlClient SERVER_NAME DATABASE_NAME DB_USERNAME DB_PASSWORD PORT)
            (table2 table_name_2) Upsert)
         (logger_info [Lit ''Pipeline run successful Table 2'']))))))))))))))))))))))))"

text \<open>
  \<^verbatim>\<open>def run_pipeline(pipeline_name, postgresql_logging_client, pipeline_config)\<close>. The
  logger and the recorder are created before the \<^verbatim>\<open>try\<close>; the start marker, the
  pipeline and the success marker are inside it; the handler catches
  \<^verbatim>\<open>BaseException\<close>, and the failure marker is written from the handler.
\<close>

definition run_pipeline_body :: "metadata_logger \<Rightarrow> json \<Rightarrow> unit prog" where
  "run_pipeline_body metadata_logger pipeline_config =
     seq (metadata_log metadata_logger None None)
    (bind (lift (dict_get pipeline_config ''config'')) (\<lambda>config.
     seq (pipeline config)
    (bind get_logs (\<lambda>logs.
     seq (metadata_log metadata_logger (Some RUN_SUCCESS) (Some logs))
         handlers_clear))))"

definition run_pipeline_handler :: "metadata_logger \<Rightarrow> exn \<Rightarrow> unit prog" where
  "run_pipeline_handler metadata_logger e =
     seq (logger_error [Lit ''Pipeline run failed. See detailed logs: '', Fmt_exn e])
    (bind get_logs (\<lambda>logs.
     seq (metadata_log metadata_logger (Some RUN_FAILURE) (Some logs))
         handlers_clear))"

definition run_pipeline :: "json \<Rightarrow> pg_client \<Rightarrow> json \<Rightarrow> unit prog" where
  "run_pipeline pipeline_name postgresql_logging_client pipeline_config =
     bind (lift (dict_get pipeline_config ''config'')) (\<lambda>config_1.
     bind (lift (dict_get config_1 ''log_folder_path'')) (\<lambda>log_folder_path.
     seq (PipelineLogging pipeline_name log_folder_path)
    (bind (lift (dict_get pipeline_config ''config'')) (\<lambda>config_2.
     try_except
       (run_pipeline_body
          (MetaDataLogging pipeline_name postgresql_logging_client config_2) pipeline_config)
       BaseException_class
       (run_pipeline_handler
          (MetaDataLogging pipeline_name postgresql_logging_client config_2))))))"

section \<open>The entry point and the scheduler loop\<close>

text \<open>
  \<^verbatim>\<open>s.replace(old, new)\<close>: every occurrence of \<open>old\<close> in \<open>s\<close>, found from the left
  and not overlapping, becomes \<open>new\<close>. With an empty \<open>old\<close>, \<open>new\<close> is put before every
  character and at the end.
\<close>

function replace_nonempty :: "string \<Rightarrow> string \<Rightarrow> string \<Rightarrow> string" where
  "replace_nonempty [] old new = []"
| "replace_nonempty (c # cs) old new =
     (if old \<noteq> [] \<and> prefix old (c # cs)
      then new @ replace_nonempty (drop (length old) (c # cs)) old new
      else c # replace_nonempty cs old new)"
  by pat_completeness auto
termination
  by (relation "measure (\<lambda>(s, old, new). length s)") auto

definition str_replace :: "string \<Rightarrow> string \<Rightarrow> string \<Rightarrow> string" where
  "str_replace s old new =
     (if old = [] then new @ concat (map (\<lambda>c. c # new) s) else replace_nonempty s old new)"

text \<open>
  The numbers \<^verbatim>\<open>time.sleep\<close> and \<^verbatim>\<open>datetime.timedelta\<close> accept: an integer, a
  boolean (Python's \<^verbatim>\<open>bool\<close> is an \<^verbatim>\<open>int\<close>) or a float.
\<close>

fun as_number :: "json \<Rightarrow> pyfloat option" where
  "as_number (JNum n) = Some (Finite (of_int n))"
| "as_number (JBool b) = Some (Finite (if b then 1 else 0))"
| "as_number (JFloat x) = Some x"
| "as_number _ = None"

text \<open>
  \<^verbatim>\<open>time.sleep(secs)\<close> turns its argument into a whole number of nanoseconds held in
  64 bits, rounding away from zero, and then sleeps. It raises \<^verbatim>\<open>TypeError\<close> for a
  value that is not a number, \<^verbatim>\<open>ValueError\<close> for not-a-number, \<^verbatim>\<open>OverflowError\<close>
  for an infinity and for a length that does not fit the 64 bits (more than
  9223372036.854775807 seconds, or less than -9223372036.854775808), and
  \<^verbatim>\<open>ValueError\<close> for a negative length. Otherwise the clock advances by the length
  asked for.
\<close>

definition time_sleep :: "json \<Rightarrow> unit prog" where
  "time_sleep secs =
     (case as_number secs of
        None \<Rightarrow> raise (TypeError ''object cannot be interpreted as an integer'')
      | Some NaN \<Rightarrow> raise (ValueError ''Invalid value NaN (not a number)'')
      | Some Infinity \<Rightarrow> raise (OverflowError ''timestamp out of range for platform time_t'')
      | Some Neg_infinity \<Rightarrow>
          raise (OverflowError ''timestamp out of range for platform time_t'')
      | Some (Finite q) \<Rightarrow>
          if 2 ^ 63 - 1 < q * 10 ^ 9 \<or> q * 10 ^ 9 < - (2 ^ 63)
          then raise (OverflowError ''timestamp too large to convert to C _PyTime_t'')
          else if q < 0 then raise (ValueError ''sleep length must be non-negative'')
          else (\<lambda>w. (Inr (), w\<lparr>now := now w + q, calls := calls w @ [Call_sleep q]\<rparr>)))"

text \<open>
  The job that \<^verbatim>\<open>schedule.every(n).seconds.do(run_pipeline, ...)\<close> registers: its
  period, the time of its next run, and the arguments \<^verbatim>\<open>run_pipeline\<close> will be called
  with. The entry point registers this one job and no other, so the scheduler's job list
  is this job.
\<close>

record job =
  interval :: rat
  next_run :: rat
  job_pipeline_name :: json
  job_postgresql_logging_client :: pg_client
  job_pipeline_config :: json

text \<open>
  \<^verbatim>\<open>datetime.timedelta(seconds=n)\<close>, in seconds. A \<^verbatim>\<open>timedelta\<close> is a whole number
  of microseconds (the nearest, a half going to the even one) of at most 999999999 days
  in either direction. It raises \<^verbatim>\<open>TypeError\<close> for a value that is not a number,
  \<^verbatim>\<open>ValueError\<close> for not-a-number and \<^verbatim>\<open>OverflowError\<close> for an infinity and for
  a value out of its range.
\<close>

definition round_half_even :: "rat \<Rightarrow> int" where
  "round_half_even x =
     (let f = \<lfloor>x\<rfloor> in
      if x - of_int f < 1 / 2 then f
      else if 1 / 2 < x - of_int f then f + 1
      else if even f then f else f + 1)"

definition timedelta_seconds :: "json \<Rightarrow> exn + rat" where
  "timedelta_seconds seconds =
     (case as_number seconds of
        None \<Rightarrow> Inl (TypeError ''unsupported type for timedelta seconds component'')
      | Some NaN \<Rightarrow> Inl (ValueError ''cannot convert float NaN to integer'')
      | Some Infinity \<Rightarrow> Inl (OverflowError ''cannot convert float infinity to integer'')
      | Some Neg_infinity \<Rightarrow>
          Inl (OverflowError ''cannot convert float infinity to integer'')
      | Some (Finite q) \<Rightarrow>
          (let us = round_half_even (q * 1000000) in
           if 86400000000000 * 1000000 \<le> us \<or> us < - (86399999913600 * 1000000)
           then Inl (OverflowError ''days; must have magnitude <= 999999999'')
           else Inr (of_int us / 1000000)))"

text \<open>
  The time of a job's next run, computed at a given time: one period later, and then, as
  the library does since its version 1.2, moved on by further periods for as long as it
  is not in the future. For a period of zero or less that never ends, and the
  computation does not return: there is no next run (\<open>None\<close>).
\<close>

definition next_run_after :: "rat \<Rightarrow> rat \<Rightarrow> rat option" where
  "next_run_after period t = (if 0 < period then Some (t + period) else None)"

text \<open>
  \<^verbatim>\<open>schedule.every(n).seconds.do(run_pipeline, ...)\<close>: the library computes the
  period as a \<^verbatim>\<open>timedelta\<close> of the interval and the time of the first run from now.
  The result is the job registered, or \<open>None\<close> when the call does not return.
\<close>

definition schedule_every_seconds_do ::
  "json \<Rightarrow> json \<Rightarrow> pg_client \<Rightarrow> json \<Rightarrow> job option prog" where
  "schedule_every_seconds_do every pipeline_name postgresql_logging_client pipeline_config =
     bind (lift (timedelta_seconds every)) (\<lambda>period w.
       (Inr (case next_run_after period (now w) of
               None \<Rightarrow> None
             | Some t \<Rightarrow>
                 Some \<lparr>interval = period, next_run = t,
                       job_pipeline_name = pipeline_name,
                       job_postgresql_logging_client = postgresql_logging_client,
                       job_pipeline_config = pipeline_config\<rparr>), w))"

text \<open>
  Running a job calls its function in the calling thread and, once the function has
  returned, computes the time of the next run from then; the result is the job with its
  next run, or \<open>None\<close> when that computation does not return. An exception of the
  function propagates to the caller of \<^verbatim>\<open>run_pending\<close>. \<open>Job_begin\<close> and \<open>Job_end\<close>
  mark in the trace where the invocation starts and where it is over.
\<close>

definition run_job :: "job \<Rightarrow> job option prog" where
  "run_job j =
     (\<lambda>w. case run_pipeline (job_pipeline_name j) (job_postgresql_logging_client j)
                 (job_pipeline_config j) (w\<lparr>calls := calls w @ [Job_begin]\<rparr>) of
        (Inl e, w') \<Rightarrow> (Inl e, w'\<lparr>calls := calls w' @ [Job_end]\<rparr>)
      | (Inr _, w') \<Rightarrow>
          (Inr (case next_run_after (interval j) (now w') of
                  None \<Rightarrow> None
                | Some t \<Rightarrow> Some (j\<lparr>next_run := t\<rparr>)),
           w'\<lparr>calls := calls w' @ [Job_end]\<rparr>))"

text \<open>\<^verbatim>\<open>schedule.run_pending()\<close> runs the job when its time has come.\<close>

definition run_pending :: "job \<Rightarrow> job option prog" where
  "run_pending j =
     (\<lambda>w. let w' = w\<lparr>calls := calls w @ [Call_run_pending]\<rparr>
           in if next_run j \<le> now w' then run_job j w' else (Inr (Some j), w'))"

text \<open>
  How the process stands: still running (in its loop, or in a call of the library that
  does not return), ended by an exception, or ended normally.
\<close>

datatype process_status = Running | Died exn | Exited

text \<open>
  \<^verbatim>\<open>while True: schedule.run_pending(); time.sleep(poll_seconds)\<close>, run for a given
  number of iterations. The loop has no \<^verbatim>\<open>break\<close> and nothing follows it. An
  exception of the check or of the sleep ends the process; a check that does not return
  leaves it running.
\<close>

definition loop_sleep :: "json \<Rightarrow> unit prog" where
  "loop_sleep pipeline_config =
     bind (lift (dict_get pipeline_config ''schedule'')) (\<lambda>schedule.
     bind (lift (dict_get schedule ''poll_seconds'')) time_sleep)"

fun main_loop :: "nat \<Rightarrow> json \<Rightarrow> job \<Rightarrow> world \<Rightarrow> process_status \<times> world" where
  "main_loop 0 pipeline_config j w = (Running, w)"
| "main_loop (Suc n) pipeline_config j w =
     (case run_pending j w of
        (Inl e, w1) \<Rightarrow> (Died e, w1)
      | (Inr None, w1) \<Rightarrow> (Running, w1)
      | (Inr (Some j'), w1) \<Rightarrow>
          (case loop_sleep pipeline_config w1 of
             (Inl e, w2) \<Rightarrow> (Died e, w2)
           | (Inr _, w2) \<Rightarrow> main_loop n pipeline_config j' w2))"

text \<open>
  The statements of \<^verbatim>\<open>if __name__ == "__main__":\<close> before the loop. \<open>file\<close> is
  \<^verbatim>\<open>__file__\<close>. \<^verbatim>\<open>load_dotenv()\<close> has made its additions to the environment already;
  a file's content is the YAML document parsed.
\<close>

definition yaml_file_path :: "string \<Rightarrow> string" where
  "yaml_file_path file = str_replace file ''.py'' ''.yaml''"

definition read_config :: "string \<Rightarrow> (json \<times> json) prog" where
  "read_config file =
     (\<lambda>w. case map_of (files w) (yaml_file_path file) of
        Some pipeline_config \<Rightarrow>
          bind (lift (dict_get pipeline_config ''name''))
            (\<lambda>PIPELINE_NAME. returns (pipeline_config, PIPELINE_NAME)) w
      | None \<Rightarrow>
          raise (Exception (''Missing '' @ yaml_file_path file @
            '' file! Please create the yaml file with at least a `name` key for the pipeline name.'')) w)"

definition startup :: "string \<Rightarrow> (json \<times> job option) prog" where
  "startup file =
     bind (os_environ_get ''LOGGING_SERVER_NAME'') (\<lambda>LOGGING_SERVER_NAME.
     bind (os_environ_get ''LOGGING_DATABASE_NAME'') (\<lambda>LOGGING_DATABASE_NAME.
     bind (os_environ_get ''LOGGING_USERNAME'') (\<lambda>LOGGING_USERNAME.
     bind (os_environ_get ''LOGGING_PASSWORD'') (\<lambda>LOGGING_PASSWORD.
     bind (os_environ_get ''LOGGING_PORT'') (\<lambda>LOGGING_PORT.
     bind (read_config file) (\<lambda>(pipeline_config, PIPELINE_NAME).
     bind (lift (dict_get pipeline_config ''schedule'')) (\<lambda>schedule.
     bind (lift (dict_get schedule ''run_seconds'')) (\<lambda>run_seconds.
     bind (schedule_every_seconds_do run_seconds PIPELINE_NAME
             (PostgreSqlClient LOGGING_SERVER_NAME LOGGING_DATABASE_NAME LOGGING_USERNAME
                LOGGING_PASSWORD LOGGING_PORT)
             pipeline_config) (\<lambda>j.
     returns (pipeline_config, j))))))))))"

text \<open>
  The process: the statements before the loop, then the loop. An exception before the
  loop ends the process; a registration that does not return leaves it running.
\<close>

definition main :: "nat \<Rightarrow> string \<Rightarrow> world \<Rightarrow> process_status \<times> world" where
  "main fuel file w =
     (case startup file w of
        (Inl e, w') \<Rightarrow> (Died e, w')
      | (Inr (pipeline_config, None), w') \<Rightarrow> (Running, w')
      | (Inr (pipeline_config, Some j), w') \<Rightarrow> main_loop fuel pipeline_config j w')"


section \<open>Notions used in the statements\<close>

text \<open>A program leaves a component of the world as it found it.\<close>

definition frames :: "(world \<Rightarrow> 'b) \<Rightarrow> 'a prog \<Rightarrow> bool" where
  "frames f p = (\<forall>w. f (snd (p w)) = f w)"

text \<open>A program only appends rows to the metadata table.\<close>

definition grows :: "'a prog \<Rightarrow> bool" where
  "grows p = (\<forall>w. prefix (metadata_table w) (metadata_table (snd (p w))))"

text \<open>A program only appends calls to the trace, and only calls of one kind.\<close>

definition only_calls :: "(call \<Rightarrow> bool) \<Rightarrow> 'a prog \<Rightarrow> bool" where
  "only_calls P p = (\<forall>w. \<exists>evs. calls (snd (p w)) = calls w @ evs \<and> list_all P evs)"

fun is_Call_transform :: "call \<Rightarrow> bool" where
  "is_Call_transform (Call_transform sl) = True"
| "is_Call_transform _ = False"


text \<open>The selection lists of the calls of \<^verbatim>\<open>transform\<close> in a trace, in order.\<close>

fun transform_calls :: "call list \<Rightarrow> string list list" where
  "transform_calls [] = []"
| "transform_calls (Call_transform sl # cs) = sl # transform_calls cs"
| "transform_calls (_ # cs) = transform_calls cs"

text \<open>The status arguments of the calls of the Metadata Recorder in a trace, in order.\<close>

fun is_Call_metadata_log :: "call \<Rightarrow> bool" where
  "is_Call_metadata_log (Call_metadata_log st) = True"
| "is_Call_metadata_log _ = False"

fun metadata_calls :: "call list \<Rightarrow> MetaDataLoggingStatus option list" where
  "metadata_calls [] = []"
| "metadata_calls (Call_metadata_log st # cs) = st # metadata_calls cs"
| "metadata_calls (_ # cs) = metadata_calls cs"



text \<open>The line the handler of \<^verbatim>\<open>run_pipeline\<close> logs for an exception.\<close>

definition failure_line :: "world \<Rightarrow> exn \<Rightarrow> log_line" where
  "failure_line w e =
     (now w, ERROR, [Lit ''Pipeline run failed. See detailed logs: '', Fmt_exn e])"

text \<open>A configuration, a client and a world with nothing in it, for the examples.\<close>

definition demo_settings :: json where
  "demo_settings = JObj
     [(''base_url'', JStr ''https://feed.example/query''),
      (''method'', JStr ''GET''),
      (''layer_name'', JStr ''features''),
      (''table_name'', JStr ''earthquakes''),
      (''log_folder_path'', JStr ''logs'')]"

definition demo_config :: json where
  "demo_config = JObj
     [(''name'', JStr ''earthquakes''),
      (''config'', demo_settings),
      (''schedule'', JObj [(''run_seconds'', JNum 30), (''poll_seconds'', JNum 5)])]"

definition demo_client :: pg_client where
  "demo_client = PostgreSqlClient JNull JNull JNull JNull JNull"

definition quiet_world :: world where
  "quiet_world = \<lparr>now = 0, environ = [], files = [], run_logs = [], handlers = 0,
     metadata_table = [], database = [], feed_script = [], load_script = [],
     meta_script = [], calls = []\<rparr>"


text \<open>The world in which the pipeline body of a run starts: the logger is created and the
  start marker has been attempted.\<close>

definition started :: "json \<Rightarrow> pg_client \<Rightarrow> json \<Rightarrow> json \<Rightarrow> world \<Rightarrow> world" where
  "started name client config log_folder_path w =
     snd (metadata_log (MetaDataLogging name client config) None None
            (snd (PipelineLogging name log_folder_path w)))"

text \<open>Example worlds: the feed answers 503; the logging database is down as well.\<close>

definition feed_down_world :: world where
  "feed_down_world = quiet_world\<lparr>feed_script := [Inl (FetchError ''503'')]\<rparr>"

definition feed_and_logging_down_world :: world where
  "feed_and_logging_down_world =
     quiet_world\<lparr>feed_script := [Inl (FetchError ''503'')],
                 meta_script := [None, Some (Exception ''logging database down'')]\<rparr>"


text \<open>The logging database rejects the first call of a run.\<close>

definition logging_down_at_start_world :: world where
  "logging_down_at_start_world =
     quiet_world\<lparr>meta_script := [Some (Exception ''logging database down'')]\<rparr>"

text \<open>The logging database rejects the second call of a run; the feed is in order.\<close>

definition logging_down_at_end_world :: world where
  "logging_down_at_end_world =
     quiet_world\<lparr>meta_script := [None, Some (Exception ''logging database down'')]\<rparr>"

text \<open>The feed answers with a text where a collection is expected.\<close>

definition odd_feed_world :: world where
  "odd_feed_world = quiet_world\<lparr>feed_script := [Inr (JStr ''maintenance'')]\<rparr>"

text \<open>The process is interrupted while the feed is being read.\<close>

definition interrupted_world :: world where
  "interrupted_world = quiet_world\<lparr>feed_script := [Inl KeyboardInterrupt]\<rparr>"

definition interrupted_logging_down_world :: world where
  "interrupted_logging_down_world =
     quiet_world\<lparr>feed_script := [Inl KeyboardInterrupt],
                 meta_script := [None, Some (Exception ''logging database down'')]\<rparr>"


text \<open>Three features of a feed; the second has no magnitude.\<close>

definition demo_features :: "feature list" where
  "demo_features =
     [[(''type'', JStr ''Feature''), (''id'', JStr ''us1''),
       (''properties'', JObj [(''mag'', JNum 5), (''place'', JStr ''Fiji'')]),
       (''geometry'', JObj [(''coordinates'', JArr [JNum 178, JNum (-18), JNum 10])])],
      [(''type'', JStr ''Feature''), (''id'', JStr ''us2''),
       (''properties'', JObj [(''place'', JStr ''Chile'')])],
      [(''type'', JStr ''Feature''), (''id'', JStr ''us3''),
       (''properties'', JObj [(''mag'', JNum 2)])]]"


text \<open>A two-column schema keyed by \<^verbatim>\<open>id\<close>, for the examples.\<close>

definition demo_schema :: "column list" where
  "demo_schema = [Column_pk ''id'' String, Column ''properties.mag'' (String_n 500)]"








text \<open>
  The invocation a job stands for, the world in which it starts when the check made in
  \<open>w\<close> finds the job due, and the world when it is over.
\<close>

definition invocation :: "job \<Rightarrow> unit prog" where
  "invocation j =
     run_pipeline (job_pipeline_name j) (job_postgresql_logging_client j)
       (job_pipeline_config j)"

definition at_check :: "world \<Rightarrow> world" where
  "at_check w = w\<lparr>calls := calls w @ [Call_run_pending, Job_begin]\<rparr>"

definition after_job :: "world \<Rightarrow> world" where
  "after_job w = w\<lparr>calls := calls w @ [Job_end]\<rparr>"

text \<open>A length \<^verbatim>\<open>time.sleep\<close> accepts.\<close>

definition sleepable :: "rat \<Rightarrow> bool" where
  "sleepable p = (0 \<le> p \<and> p * 10 ^ 9 \<le> 2 ^ 63 - 1)"

text \<open>A job due at second 5, every 30 seconds; the same job due at once.\<close>

definition demo_job :: job where
  "demo_job = \<lparr>interval = 30, next_run = 5, job_pipeline_name = JStr ''earthquakes'',
     job_postgresql_logging_client = demo_client, job_pipeline_config = demo_config\<rparr>"

definition due_job :: job where
  "due_job = demo_job\<lparr>next_run := 0\<rparr>"



text \<open>
  The module installed under a directory whose name contains \<^verbatim>\<open>.py\<close>, with its
  configuration file beside it.
\<close>

definition pyenv_file :: string where
  "pyenv_file = ''/opt/.pyenv/etl/earthquakes.py''"

definition pyenv_world :: world where
  "pyenv_world = quiet_world\<lparr>files := [(''/opt/.pyenv/etl/earthquakes.yaml'', demo_config)]\<rparr>"


section \<open>Sequencing, frames and traces\<close>

lemma bind_Inr: "m w = (Inr x, w') \<Longrightarrow> bind m f w = f x w'"
  by (simp add: bind_def)

lemma bind_Inl: "m w = (Inl e, w') \<Longrightarrow> bind m f w = (Inl e, w')"
  by (simp add: bind_def)

lemma seq_Inr: "m w = (Inr x, w') \<Longrightarrow> seq m k w = k w'"
  by (simp add: seq_def bind_def)

lemma seq_Inl: "m w = (Inl e, w') \<Longrightarrow> seq m k w = (Inl e, w')"
  by (simp add: seq_def bind_def)

lemma isinstance_BaseException: "isinstance e BaseException_class"
  by (cases e) simp_all

lemma try_except_Inl:
  "body w = (Inl e, w') \<Longrightarrow> try_except body BaseException_class handler w = handler e w'"
  by (simp add: try_except_def isinstance_BaseException)

lemma try_except_Inr:
  "body w = (Inr x, w') \<Longrightarrow> try_except body cls handler w = (Inr x, w')"
  by (simp add: try_except_def)

lemma framesD: "frames f p \<Longrightarrow> p w = (r, w') \<Longrightarrow> f w' = f w"
  by (metis frames_def snd_conv)

lemma frames_returns: "frames f (returns x)"
  by (simp add: frames_def returns_def)

lemma frames_raise: "frames f (raise e)"
  by (simp add: frames_def raise_def)

lemma frames_lift: "frames f (lift r)"
  by (simp add: frames_def lift_def)

lemma frames_bind: "frames f m \<Longrightarrow> (\<And>x. frames f (k x)) \<Longrightarrow> frames f (bind m k)"
  by (auto simp: frames_def bind_def split: prod.splits sum.splits) (metis snd_conv)+

lemma frames_seq: "frames f m \<Longrightarrow> frames f k \<Longrightarrow> frames f (seq m k)"
  by (simp add: seq_def frames_bind)

text \<open>The pipeline touches neither the logging database nor the clock.\<close>

lemma frames_logger_info:
  "frames meta_script (logger_info m)" "frames metadata_table (logger_info m)"
  "frames now (logger_info m)"
  by (simp_all add: frames_def logger_info_def)

lemma frames_os_environ_get:
  "frames meta_script (os_environ_get k)" "frames metadata_table (os_environ_get k)"
  "frames now (os_environ_get k)"
  by (simp_all add: frames_def os_environ_get_def)

lemma frames_record_call:
  "frames meta_script (record_call c)" "frames metadata_table (record_call c)"
  "frames now (record_call c)"
  by (simp_all add: frames_def record_call_def)

lemma frames_extract:
  "frames meta_script (extract_earthquakes_data c a b l)"
  "frames metadata_table (extract_earthquakes_data c a b l)"
  "frames now (extract_earthquakes_data c a b l)"
  unfolding extract_earthquakes_data_def
  by (rule frames_seq, rule frames_record_call, simp add: frames_def)+

lemma frames_call_transform:
  "frames meta_script (call_transform d l)" "frames metadata_table (call_transform d l)"
  "frames now (call_transform d l)"
  unfolding call_transform_def
  by (intro frames_seq frames_record_call;
      simp add: frames_returns frames_raise split: option.splits)+

lemma frames_write_rows:
  "frames meta_script (write_rows t rs)" "frames metadata_table (write_rows t rs)"
  "frames now (write_rows t rs)"
  by (simp_all add: frames_def write_rows_def Let_def)

lemma frames_next_load_fault:
  "frames meta_script next_load_fault" "frames metadata_table next_load_fault"
  "frames now next_load_fault"
  by (simp_all add: frames_def next_load_fault_def)

lemma frames_load:
  "frames meta_script (load d c t m)" "frames metadata_table (load d c t m)"
  "frames now (load d c t m)"
  unfolding load_def
  by (intro frames_seq frames_bind frames_record_call frames_next_load_fault;
      simp add: frames_seq frames_write_rows frames_raise
        split: option.splits load_fault.splits)+

lemmas frames_prims = frames_logger_info frames_os_environ_get frames_extract
  frames_call_transform frames_load frames_lift

lemma frames_pipeline:
  "frames meta_script (pipeline config)" "frames metadata_table (pipeline config)"
  "frames now (pipeline config)"
  unfolding pipeline_def
  by (intro frames_bind frames_seq frames_prims)+

lemma grows_frames: "frames metadata_table p \<Longrightarrow> grows p"
  by (simp add: grows_def frames_def)

lemma grows_bind: "grows m \<Longrightarrow> (\<And>x. grows (k x)) \<Longrightarrow> grows (bind m k)"
  unfolding grows_def bind_def
  by (auto split: prod.splits sum.splits) (metis prefix_order.order_trans snd_conv)+

lemma grows_seq: "grows m \<Longrightarrow> grows k \<Longrightarrow> grows (seq m k)"
  by (simp add: seq_def grows_bind)

lemma grows_try_except: "grows b \<Longrightarrow> (\<And>e. grows (h e)) \<Longrightarrow> grows (try_except b cls h)"
  unfolding grows_def try_except_def
  by (auto split: prod.splits sum.splits) (metis prefix_order.order_trans snd_conv)+


section \<open>The error handling of \<^verbatim>\<open>run_pipeline\<close>\<close>

lemma metadata_log_outcome:
  "metadata_log lg status logs w =
     (case next_meta_fault w of
        None \<Rightarrow> (Inr (), w\<lparr>calls := calls w @ [Call_metadata_log status],
                          meta_script := tl (meta_script w),
                          metadata_table := metadata_table w @
                            [\<lparr>rr_pipeline_name = ml_pipeline_name lg, rr_timestamp = now w,
                              rr_status = status, rr_logs = logs\<rparr>]\<rparr>)
      | Some e \<Rightarrow> (Inl e, w\<lparr>calls := calls w @ [Call_metadata_log status],
                          meta_script := tl (meta_script w)\<rparr>))"
  by (simp add: metadata_log_def next_meta_fault_def seq_def bind_def record_call_def
      split: list.splits option.splits)

lemma grows_metadata_log: "grows (metadata_log lg st logs)"
  by (simp add: grows_def metadata_log_outcome split: option.splits)

lemma handler_outcome:
  "run_pipeline_handler lg e w =
     (case next_meta_fault w of
        None \<Rightarrow> (Inr (), w\<lparr>run_logs := run_logs w @ [failure_line w e],
                          calls := calls w @ [Call_metadata_log (Some RUN_FAILURE)],
                          meta_script := tl (meta_script w),
                          metadata_table := metadata_table w @
                            [\<lparr>rr_pipeline_name = ml_pipeline_name lg, rr_timestamp = now w,
                              rr_status = Some RUN_FAILURE,
                              rr_logs = Some (run_logs w @ [failure_line w e])\<rparr>],
                          handlers := 0\<rparr>)
      | Some e' \<Rightarrow> (Inl e', w\<lparr>run_logs := run_logs w @ [failure_line w e],
                          calls := calls w @ [Call_metadata_log (Some RUN_FAILURE)],
                          meta_script := tl (meta_script w)\<rparr>))"
  by (simp add: run_pipeline_handler_def seq_def bind_def logger_error_def get_logs_def
      metadata_log_outcome next_meta_fault_def handlers_clear_def failure_line_def
      split: option.splits)

lemma run_pipeline_enters_try:
  assumes "dict_get pipeline_config ''config'' = Inr config"
    and "dict_get config ''log_folder_path'' = Inr log_folder_path"
  shows "run_pipeline name client pipeline_config w =
     try_except (run_pipeline_body (MetaDataLogging name client config) pipeline_config)
       BaseException_class (run_pipeline_handler (MetaDataLogging name client config))
       (snd (PipelineLogging name log_folder_path w))"
  using assms
  by (simp add: run_pipeline_def bind_def lift_def seq_def PipelineLogging_def)

lemma body_pipeline_raises:
  assumes "dict_get pipeline_config ''config'' = Inr config"
    and "metadata_log lg None None w0 = (Inr (), w1)"
    and "pipeline config w1 = (Inl e, w2)"
  shows "run_pipeline_body lg pipeline_config w0 = (Inl e, w2)"
  using assms by (simp add: run_pipeline_body_def seq_def bind_def lift_def)

lemma pipeline_failure_reaches_handler:
  assumes cfg: "dict_get pipeline_config ''config'' = Inr config"
    and lfp: "dict_get config ''log_folder_path'' = Inr log_folder_path"
    and start: "metadata_log (MetaDataLogging name client config) None None
                  (snd (PipelineLogging name log_folder_path w)) = (Inr (), w1)"
    and body: "pipeline config w1 = (Inl e, w2)"
  shows "run_pipeline name client pipeline_config w =
           run_pipeline_handler (MetaDataLogging name client config) e w2"
  using run_pipeline_enters_try [OF cfg lfp] body_pipeline_raises [OF cfg start body]
  by (simp add: try_except_Inl)

text \<open>
  Whatever happens in a run, the rows already in the metadata table stay as they are:
  every call of the recorder is an insert.
\<close>

lemma grows_run_pipeline: "grows (run_pipeline name client pipeline_config)"
  unfolding run_pipeline_def run_pipeline_body_def run_pipeline_handler_def
  by (intro grows_bind grows_seq grows_try_except grows_metadata_log grows_frames
        frames_lift frames_pipeline;
      simp add: frames_def PipelineLogging_def get_logs_def handlers_clear_def logger_error_def)


section \<open>The pipeline, step by step\<close>

text \<open>
  The statements of \<^verbatim>\<open>pipeline\<close> before the loads never raise once the configuration
  is a mapping, except for the extraction; these rules run them on any world.
\<close>

lemma step_logger_info:
  "seq (logger_info m) k w = k (w\<lparr>run_logs := run_logs w @ [(now w, INFO, m)]\<rparr>)"
  by (simp add: seq_def bind_def logger_info_def)

lemma step_os_environ_get:
  "bind (os_environ_get n) f w =
     f (case map_of (environ w) n of Some v \<Rightarrow> JStr v | None \<Rightarrow> JNull) w"
  by (simp add: bind_def os_environ_get_def)

lemma step_dict_get: "bind (lift (Inr x)) f w = f x w"
  by (simp add: bind_def lift_def)

lemma step_extract:
  "bind (extract_earthquakes_data c s e l) f w =
     (case next_feed w of
        Inl x \<Rightarrow> (Inl x, w\<lparr>calls := calls w @
                     [Call_extract (base_url c) (http_method c) s e l],
                   feed_script := tl (feed_script w)\<rparr>)
      | Inr df \<Rightarrow> f df (w\<lparr>calls := calls w @
                     [Call_extract (base_url c) (http_method c) s e l],
                   feed_script := tl (feed_script w)\<rparr>))"
  by (simp add: bind_def seq_def extract_earthquakes_data_def record_call_def next_feed_def
      split: sum.splits list.splits)

lemma step_call_transform:
  "bind (call_transform d sl) f w =
     (case features_of d of
        Some df \<Rightarrow> f (transform df sl) (w\<lparr>calls := calls w @ [Call_transform sl]\<rparr>)
      | None \<Rightarrow> (Inl (TransformError ''unexpected shape''),
                 w\<lparr>calls := calls w @ [Call_transform sl]\<rparr>))"
  by (simp add: bind_def seq_def call_transform_def record_call_def returns_def raise_def
      split: option.splits)

lemmas pipeline_steps = step_logger_info step_os_environ_get step_dict_get step_extract
  step_call_transform

lemma only_callsD:
  "only_calls P p \<Longrightarrow> p w = (r, w') \<Longrightarrow> \<exists>evs. calls w' = calls w @ evs \<and> list_all P evs"
  by (metis only_calls_def snd_conv)

lemma only_calls_frames: "frames calls p \<Longrightarrow> only_calls P p"
  by (simp add: only_calls_def frames_def)

lemma only_calls_bind:
  assumes "only_calls P m" and "\<And>x. only_calls P (k x)"
  shows "only_calls P (bind m k)"
  unfolding only_calls_def
proof
  fix w
  obtain r w1 where m: "m w = (r, w1)" by (cases "m w")
  from only_callsD [OF assms(1) m] obtain evs where
    e1: "calls w1 = calls w @ evs" "list_all P evs" by blast
  show "\<exists>evs. calls (snd (bind m k w)) = calls w @ evs \<and> list_all P evs"
  proof (cases r)
    case (Inl e)
    with m e1 show ?thesis by (auto simp: bind_def)
  next
    case (Inr x)
    obtain r2 w2 where k: "k x w1 = (r2, w2)" by (cases "k x w1")
    from only_callsD [OF assms(2) k] obtain evs2 where
      e2: "calls w2 = calls w1 @ evs2" "list_all P evs2" by blast
    have "calls (snd (bind m k w)) = calls w @ (evs @ evs2)"
      using m Inr k e1 e2 by (simp add: bind_def)
    moreover have "list_all P (evs @ evs2)" using e1 e2 by simp
    ultimately show ?thesis by blast
  qed
qed

lemma only_calls_seq: "only_calls P m \<Longrightarrow> only_calls P k \<Longrightarrow> only_calls P (seq m k)"
  by (simp add: seq_def only_calls_bind)


lemma only_calls_record_call: "P c \<Longrightarrow> only_calls P (record_call c)"
  by (simp add: only_calls_def record_call_def)

lemma frames_calls_prims:
  "frames calls (returns x)" "frames calls (raise e)" "frames calls (lift r)"
  "frames calls (logger_info m)" "frames calls (logger_error m)" "frames calls get_logs"
  "frames calls handlers_clear" "frames calls (os_environ_get k)"
  "frames calls (PipelineLogging n l)" "frames calls next_load_fault"
  "frames calls (write_rows t rs)"
  by (simp_all add: frames_def returns_def raise_def lift_def logger_info_def logger_error_def
      get_logs_def handlers_clear_def os_environ_get_def PipelineLogging_def
      next_load_fault_def write_rows_def Let_def)

lemma only_calls_load: "P (Call_load (tbl_name t) m) \<Longrightarrow> only_calls P (load d c t m)"
  unfolding load_def
  by (intro only_calls_seq only_calls_bind only_calls_record_call only_calls_frames
        frames_calls_prims;
      simp add: only_calls_frames frames_seq frames_calls_prims
        split: option.splits load_fault.splits)

lemma only_calls_logger_info: "only_calls P (logger_info m)"
  by (simp add: only_calls_frames frames_calls_prims)

lemma transform_calls_append:
  "transform_calls (xs @ ys) = transform_calls xs @ transform_calls ys"
  by (induction xs rule: transform_calls.induct) simp_all

lemma transform_calls_none:
  "list_all (\<lambda>c. \<not> is_Call_transform c) evs \<Longrightarrow> transform_calls evs = []"
  by (induction evs rule: transform_calls.induct) simp_all

lemma transform_calls_after_seq:
  assumes "only_calls (\<lambda>c. \<not> is_Call_transform c) m"
    and "only_calls (\<lambda>c. \<not> is_Call_transform c) k"
    and "calls W = calls w @ evs"
  shows "transform_calls (drop (length (calls w)) (calls (snd (seq m k W))))
           = transform_calls evs"
proof -
  obtain r W' where s: "seq m k W = (r, W')" by (cases "seq m k W")
  from only_callsD [OF only_calls_seq [OF assms(1,2)] s] obtain evs' where
    "calls W' = calls W @ evs'" "list_all (\<lambda>c. \<not> is_Call_transform c) evs'" by blast
  then show ?thesis
    using s assms(3) by (simp add: transform_calls_append transform_calls_none)
qed

lemma pipeline_transform_calls:
  assumes "next_feed w = Inr raw" and "features_of raw = Some df"
  shows "transform_calls (drop (length (calls w)) (calls (snd (pipeline (JObj kvs) w))))
      = [selection_list_1, selection_list_2]"
  using assms
  by (simp add: pipeline_def pipeline_steps EarthquakesApiClient_def next_feed_def
      transform_calls_after_seq [where evs = "[Call_extract a b c d e, Call_transform selection_list_1, Call_transform selection_list_2]" for a b c d e]
      only_calls_seq only_calls_load only_calls_logger_info)

lemma pipeline_when_fetch_fails:
  assumes "next_feed w = Inl e"
  shows "pipeline (JObj kvs) w =
     (Inl e, w\<lparr>run_logs := run_logs w @
           [(now w, INFO, [Lit ''Starting pipeline run'']),
            (now w, INFO, [Lit ''Getting ENV variables'']),
            (now w, INFO, [Lit ''Creating Earthquake API client'']),
            (now w, INFO, [Lit ''Extracting data from Earthquake API''])],
         calls := calls w @
           [Call_extract (case map_of kvs ''base_url'' of Some v \<Rightarrow> v | None \<Rightarrow> JNull)
              (case map_of kvs ''method'' of Some v \<Rightarrow> v | None \<Rightarrow> JNull)
              (case map_of kvs ''start_time'' of Some v \<Rightarrow> v | None \<Rightarrow> JNull)
              (case map_of kvs ''end_time'' of Some v \<Rightarrow> v | None \<Rightarrow> JNull)
              (case map_of kvs ''layer_name'' of Some v \<Rightarrow> v | None \<Rightarrow> JNull)],
         feed_script := tl (feed_script w)\<rparr>)"
  using assms by (simp add: pipeline_def pipeline_steps EarthquakesApiClient_def next_feed_def)



lemma step_lift_Inl: "bind (lift (Inl e)) f w = (Inl e, w)"
  by (simp add: bind_def lift_def)

lemma dict_get_no_mapping:
  "(\<And>kvs. d \<noteq> JObj kvs) \<Longrightarrow> dict_get d k = Inl (AttributeError ''get'')"
  by (cases d) auto

lemma pipeline_when_transform_fails:
  assumes "next_feed w = Inr raw" and "features_of raw = None"
  shows "pipeline (JObj kvs) w =
     (Inl (TransformError ''unexpected shape''),
      w\<lparr>run_logs := run_logs w @
           [(now w, INFO, [Lit ''Starting pipeline run'']),
            (now w, INFO, [Lit ''Getting ENV variables'']),
            (now w, INFO, [Lit ''Creating Earthquake API client'']),
            (now w, INFO, [Lit ''Extracting data from Earthquake API'']),
            (now w, INFO, [Lit ''Transform dataframes''])],
         calls := calls w @
           [Call_extract (case map_of kvs ''base_url'' of Some v \<Rightarrow> v | None \<Rightarrow> JNull)
              (case map_of kvs ''method'' of Some v \<Rightarrow> v | None \<Rightarrow> JNull)
              (case map_of kvs ''start_time'' of Some v \<Rightarrow> v | None \<Rightarrow> JNull)
              (case map_of kvs ''end_time'' of Some v \<Rightarrow> v | None \<Rightarrow> JNull)
              (case map_of kvs ''layer_name'' of Some v \<Rightarrow> v | None \<Rightarrow> JNull),
            Call_transform selection_list_1],
         feed_script := tl (feed_script w)\<rparr>)"
  using assms by (simp add: pipeline_def pipeline_steps EarthquakesApiClient_def next_feed_def)

lemma pipeline_when_config_is_no_mapping:
  assumes "dict_get config ''base_url'' = Inl e"
  shows "pipeline config w =
     (Inl e, w\<lparr>run_logs := run_logs w @
           [(now w, INFO, [Lit ''Starting pipeline run'']),
            (now w, INFO, [Lit ''Getting ENV variables''])]\<rparr>)"
  using assms by (simp add: pipeline_def pipeline_steps step_lift_Inl)


section \<open>The three recorder calls of \<^verbatim>\<open>run_pipeline\<close>\<close>

lemma start_marker_failure_reaches_handler:
  assumes cfg: "dict_get pipeline_config ''config'' = Inr config"
    and lfp: "dict_get config ''log_folder_path'' = Inr log_folder_path"
    and start: "metadata_log (MetaDataLogging name client config) None None
                  (snd (PipelineLogging name log_folder_path w)) = (Inl e, w1)"
  shows "run_pipeline name client pipeline_config w =
           run_pipeline_handler (MetaDataLogging name client config) e w1"
proof -
  have "run_pipeline_body (MetaDataLogging name client config) pipeline_config
          (snd (PipelineLogging name log_folder_path w)) = (Inl e, w1)"
    using start by (simp add: run_pipeline_body_def seq_Inl)
  then show ?thesis
    using run_pipeline_enters_try [OF cfg lfp] by (simp add: try_except_Inl)
qed

lemma body_success_marker:
  assumes "dict_get pipeline_config ''config'' = Inr config"
    and "metadata_log lg None None w0 = (Inr (), w1)"
    and "pipeline config w1 = (Inr u, w2)"
  shows "run_pipeline_body lg pipeline_config w0 =
     (case metadata_log lg (Some RUN_SUCCESS) (Some (run_logs w2)) w2 of
        (Inl e, w3) \<Rightarrow> (Inl e, w3)
      | (Inr _, w3) \<Rightarrow> (Inr (), w3\<lparr>handlers := 0\<rparr>))"
  using assms
  by (simp add: run_pipeline_body_def seq_def bind_def lift_def get_logs_def
      handlers_clear_def split: prod.splits sum.splits)

lemma success_marker_failure_reaches_handler:
  assumes cfg: "dict_get pipeline_config ''config'' = Inr config"
    and lfp: "dict_get config ''log_folder_path'' = Inr log_folder_path"
    and start: "metadata_log (MetaDataLogging name client config) None None
                  (snd (PipelineLogging name log_folder_path w)) = (Inr (), w1)"
    and body: "pipeline config w1 = (Inr u, w2)"
    and mark: "metadata_log (MetaDataLogging name client config) (Some RUN_SUCCESS)
                 (Some (run_logs w2)) w2 = (Inl e, w3)"
  shows "run_pipeline name client pipeline_config w =
           run_pipeline_handler (MetaDataLogging name client config) e w3"
  using run_pipeline_enters_try [OF cfg lfp] body_success_marker [OF cfg start body] mark
  by (simp add: try_except_Inl)


lemma handler_is_failure_marker:
  "run_pipeline_handler lg e w =
     (case metadata_log lg (Some RUN_FAILURE) (Some (run_logs w @ [failure_line w e]))
             (w\<lparr>run_logs := run_logs w @ [failure_line w e]\<rparr>) of
        (Inl e', w') \<Rightarrow> (Inl e', w')
      | (Inr _, w') \<Rightarrow> (Inr (), w'\<lparr>handlers := 0\<rparr>))"
  by (simp add: run_pipeline_handler_def seq_def bind_def logger_error_def get_logs_def
      handlers_clear_def failure_line_def split: prod.splits sum.splits)

lemma run_pipeline_raises_from_handler:
  assumes cfg: "dict_get pipeline_config ''config'' = Inr config"
    and lfp: "dict_get config ''log_folder_path'' = Inr log_folder_path"
    and r: "fst (run_pipeline name client pipeline_config w) = Inl e'"
  shows "\<exists>e w'. run_pipeline name client pipeline_config w =
                  run_pipeline_handler (MetaDataLogging name client config) e w'
               \<and> next_meta_fault w' = Some e'"
proof -
  let ?lg = "MetaDataLogging name client config"
  obtain b w2 where b: "run_pipeline_body ?lg pipeline_config
      (snd (PipelineLogging name log_folder_path w)) = (b, w2)"
    by (cases "run_pipeline_body ?lg pipeline_config
      (snd (PipelineLogging name log_folder_path w))")
  show ?thesis
  proof (cases b)
    case (Inr u)
    with b r run_pipeline_enters_try [OF cfg lfp, of name client w] show ?thesis
      by (simp add: try_except_Inr)
  next
    case (Inl e)
    with b have h: "run_pipeline name client pipeline_config w = run_pipeline_handler ?lg e w2"
      using run_pipeline_enters_try [OF cfg lfp, of name client w] by (simp add: try_except_Inl)
    with r have "next_meta_fault w2 = Some e'"
      by (simp add: handler_outcome split: option.splits)
    with h show ?thesis by blast
  qed
qed

text \<open>
  Without a \<^verbatim>\<open>config\<close> mapping \<^verbatim>\<open>run_pipeline\<close> raises before its \<^verbatim>\<open>try\<close>.
\<close>

lemma run_pipeline_without_config:
  assumes "dict_get pipeline_config ''config'' = Inl e"
  shows "run_pipeline name client pipeline_config w = (Inl e, w)"
  using assms by (simp add: run_pipeline_def step_lift_Inl)



section \<open>The calls a run records\<close>

lemma only_calls_extract_if:
  "(\<And>a b c d e. P (Call_extract a b c d e)) \<Longrightarrow>
   only_calls P (extract_earthquakes_data c s e l)"
  unfolding extract_earthquakes_data_def
  by (intro only_calls_seq only_calls_record_call) (simp_all add: only_calls_def)

lemma only_calls_call_transform_if:
  "P (Call_transform sl) \<Longrightarrow> only_calls P (call_transform d sl)"
  unfolding call_transform_def
  by (intro only_calls_seq only_calls_record_call)
     (simp_all add: only_calls_frames frames_calls_prims split: option.splits)

lemma only_calls_pipeline_if:
  assumes "\<And>a b c d e. P (Call_extract a b c d e)" and "\<And>sl. P (Call_transform sl)"
    and "\<And>n m. P (Call_load n m)"
  shows "only_calls P (pipeline config)"
  unfolding pipeline_def
  by (intro only_calls_bind only_calls_seq only_calls_logger_info only_calls_extract_if
        only_calls_call_transform_if only_calls_load only_calls_frames frames_calls_prims
        assms)

lemma metadata_calls_append:
  "metadata_calls (xs @ ys) = metadata_calls xs @ metadata_calls ys"
  by (induction xs rule: metadata_calls.induct) simp_all

lemma metadata_calls_none:
  "list_all (\<lambda>c. \<not> is_Call_metadata_log c) evs \<Longrightarrow> metadata_calls evs = []"
  by (induction evs rule: metadata_calls.induct) simp_all

lemma pipeline_metadata_calls:
  assumes "pipeline config w1 = (r, w2)"
  shows "\<exists>evs. calls w2 = calls w1 @ evs \<and> metadata_calls evs = []"
proof -
  have "only_calls (\<lambda>c. \<not> is_Call_metadata_log c) (pipeline config)"
    by (rule only_calls_pipeline_if) simp_all
  from only_callsD [OF this assms] show ?thesis
    by (auto simp: metadata_calls_none)
qed






section \<open>The scheduler loop, check by check\<close>





text \<open>A check of the schedule with the job due, and with the job not due.\<close>

lemma run_pending_when_due:
  assumes "next_run j \<le> now w"
  shows "run_pending j w =
     (case invocation j (at_check w) of
        (Inl e, w') \<Rightarrow> (Inl e, after_job w')
      | (Inr _, w') \<Rightarrow>
          (Inr (case next_run_after (interval j) (now w') of
                  None \<Rightarrow> None
                | Some t \<Rightarrow> Some (j\<lparr>next_run := t\<rparr>)), after_job w'))"
  using assms
  by (simp add: run_pending_def run_job_def Let_def invocation_def at_check_def after_job_def
      split: prod.splits sum.splits)



lemma invocation_reschedule [simp]:
  "invocation (j\<lparr>next_run := t\<rparr>) = invocation j"
  by (simp add: invocation_def)



lemma loop_sleep_outcome:
  assumes "dict_get pipeline_config ''schedule'' = Inr schedule"
    and "dict_get schedule ''poll_seconds'' = Inr poll_seconds"
    and "as_number poll_seconds = Some (Finite p)" and "sleepable p"
  shows "loop_sleep pipeline_config w =
     (Inr (), w\<lparr>now := now w + p, calls := calls w @ [Call_sleep p]\<rparr>)"
  using assms by (simp add: loop_sleep_def bind_def lift_def time_sleep_def sleepable_def)

















section \<open>A run in which nothing fails\<close>


lemma load_without_fault:
  assumes "load_script w = []"
  shows "fst (load d c t m w) = Inr ()" and "load_script (snd (load d c t m w)) = []"
  using assms
  by (simp_all add: load_def seq_def bind_def record_call_def next_load_fault_def
      write_rows_def Let_def)

lemma fst_seq_load:
  "load_script w = [] \<Longrightarrow> fst (seq (load d c t m) k w) = fst (k (snd (load d c t m w)))"
  using load_without_fault(1) [of w d c t m]
  by (cases "load d c t m w") (simp add: seq_def bind_def)

lemma fst_logger_info: "fst (logger_info m w) = Inr ()"
  by (simp add: logger_info_def)

lemma pipeline_returns_when_nothing_fails:
  assumes "config = JObj kvs" and "next_feed w = Inr raw" and "features_of raw = Some df"
    and "load_script w = []"
  shows "fst (pipeline config w) = Inr ()"
  using assms
  by (simp add: pipeline_def pipeline_steps EarthquakesApiClient_def next_feed_def
      fst_seq_load load_without_fault fst_logger_info)


section \<open>Claims about \<^verbatim>\<open>run_pipeline\<close>\<close>

lemmas example_defs =
  started_def metadata_log_outcome PipelineLogging_def MetaDataLogging_def
  next_meta_fault_def next_feed_def quiet_world_def demo_client_def PostgreSqlClient_def

lemma demo_config_config: "dict_get demo_config ''config'' = Inr demo_settings"
  by (simp add: demo_config_def)

lemma demo_settings_log_folder_path:
  "dict_get demo_settings ''log_folder_path'' = Inr (JStr ''logs'')"
  by (simp add: demo_settings_def)

lemma pipeline_raises_what_fetch_raises:
  assumes "config = JObj kvs" and "next_feed w = Inl e"
  shows "fst (pipeline config w) = Inl e"
    and "meta_script (snd (pipeline config w)) = meta_script w"
    and "metadata_table (snd (pipeline config w)) = metadata_table w"
  using assms by (simp_all add: pipeline_when_fetch_fails)

text \<open>A run does not advance the clock of the model: only the loop's sleep does.\<close>

lemma frames_try_except:
  assumes "frames f b" and "\<And>e. frames f (h e)"
  shows "frames f (try_except b cls h)"
  unfolding frames_def
proof
  fix w
  obtain r w1 where b: "b w = (r, w1)" by (cases "b w")
  have 1: "f w1 = f w" by (rule framesD [OF assms(1) b])
  show "f (snd (try_except b cls h w)) = f w"
  proof (cases r)
    case (Inr x)
    with b 1 show ?thesis by (simp add: try_except_def)
  next
    case (Inl e)
    obtain r2 w2 where h: "h e w1 = (r2, w2)" by (cases "h e w1")
    from framesD [OF assms(2) h] b Inl h 1 show ?thesis
      by (simp add: try_except_def)
  qed
qed

lemma frames_now_metadata_log: "frames now (metadata_log lg st logs)"
  by (simp add: frames_def metadata_log_outcome split: option.splits)

lemma frames_now_run_pipeline: "frames now (run_pipeline name client pipeline_config)"
  unfolding run_pipeline_def run_pipeline_body_def run_pipeline_handler_def
  by (intro frames_bind frames_seq frames_try_except frames_now_metadata_log frames_lift
        frames_pipeline;
      simp add: frames_def PipelineLogging_def get_logs_def handlers_clear_def logger_error_def)

text \<open>
  A run whose start marker is accepted and whose extraction raises: the worlds it goes
  through before the handler.
\<close>

lemma run_up_to_failed_fetch:
  assumes kv: "config = JObj kvs"
    and acc: "next_meta_fault w = None"
    and nf: "next_feed w = Inl e"
  shows "metadata_log (MetaDataLogging name client config) None None
           (snd (PipelineLogging name log_folder_path w))
         = (Inr (), started name client config log_folder_path w)"
    and "pipeline config (started name client config log_folder_path w)
         = (Inl e, snd (pipeline config (started name client config log_folder_path w)))"
    and "meta_script (snd (pipeline config (started name client config log_folder_path w)))
         = tl (meta_script w)"
    and "map rr_status (metadata_table
           (snd (pipeline config (started name client config log_folder_path w))))
         = map rr_status (metadata_table w) @ [None]"
    and "fst (pipeline config (started name client config log_folder_path w)) = Inl e"
proof -
  let ?w1 = "started name client config log_folder_path w"
  have a0: "next_meta_fault (snd (PipelineLogging name log_folder_path w)) = None"
    "next_meta_fault (w\<lparr>run_logs := [], handlers := Suc (handlers w)\<rparr>) = None"
    using acc by (simp_all add: next_meta_fault_def PipelineLogging_def)
  show s: "metadata_log (MetaDataLogging name client config) None None
           (snd (PipelineLogging name log_folder_path w)) = (Inr (), ?w1)"
    by (simp add: started_def metadata_log_outcome a0)
  have nf1: "next_feed ?w1 = Inl e"
    using nf by (simp add: started_def metadata_log_outcome a0 next_feed_def
        PipelineLogging_def)
  note p = pipeline_raises_what_fetch_raises [OF kv nf1]
  show "fst (pipeline config ?w1) = Inl e"
    by (rule p(1))
  show "pipeline config ?w1 = (Inl e, snd (pipeline config ?w1))"
    using p(1) by (simp add: prod_eq_iff)
  show "meta_script (snd (pipeline config ?w1)) = tl (meta_script w)"
    by (simp add: p(2)) (simp add: started_def metadata_log_outcome a0 PipelineLogging_def)
  show "map rr_status (metadata_table (snd (pipeline config ?w1)))
         = map rr_status (metadata_table w) @ [None]"
    by (simp add: p(3)) (simp add: started_def metadata_log_outcome a0 PipelineLogging_def)
qed

text \<open>
  C1 (amended). In a run in which the pipeline body (fetch, transform or load) raises an
  exception \<open>e\<close>, \<^verbatim>\<open>run_pipeline\<close> catches it, logs the
  error line \<^verbatim>\<open>Pipeline run failed. See detailed logs: e\<close>, and
  makes the failure call of the Metadata Recorder. When that call is accepted, a failure
  row carrying the run's logs is appended, the logger's handlers are cleared and
  \<^verbatim>\<open>run_pipeline\<close> returns normally; the scheduler, whose job
  \<open>j\<close> this run was (found due at the check made in the world
  \<open>w0\<close>), then schedules the job's next run one period later and the loop goes
  on to its sleep and, the sleep over, to its next checks: the run's failure does not end
  the process. When that call fails with \<open>e'\<close>, no row is appended,
  \<open>e'\<close> propagates out of \<^verbatim>\<open>run_pipeline\<close>, and it ends
  the process. The hypotheses say that the configuration has a
  \<^verbatim>\<open>config\<close> mapping (so that the \<^verbatim>\<open>try\<close> is
  reached), that the start marker was written and that the pipeline raised
  \<open>e\<close>.
\<close>

theorem run_failure_is_recorded_and_loop_goes_on:
  assumes cfg: "dict_get pipeline_config ''config'' = Inr config"
    and lfp: "dict_get config ''log_folder_path'' = Inr log_folder_path"
    and start: "metadata_log (MetaDataLogging name client config) None None
                  (snd (PipelineLogging name log_folder_path w)) = (Inr (), w1)"
    and body: "pipeline config w1 = (Inl e, w2)"
  shows "(case next_meta_fault w2 of
      None \<Rightarrow>
        (\<exists>w3. run_pipeline name client pipeline_config w = (Inr (), w3)
           \<and> run_logs w3 = run_logs w2 @
                [(now w2, ERROR,
                  [Lit ''Pipeline run failed. See detailed logs: '', Fmt_exn e])]
           \<and> metadata_table w3 = metadata_table w2 @
                [\<lparr>rr_pipeline_name = name, rr_timestamp = now w2,
                  rr_status = Some RUN_FAILURE, rr_logs = Some (run_logs w3)\<rparr>]
           \<and> calls w3 = calls w2 @ [Call_metadata_log (Some RUN_FAILURE)]
           \<and> handlers w3 = 0
           \<and> (\<forall>j w0 n loop_config.
                 w = at_check w0 \<and> next_run j \<le> now w0 \<and> 0 < interval j
                 \<and> invocation j = run_pipeline name client pipeline_config \<longrightarrow>
                   run_pending j w0 =
                     (Inr (Some (j\<lparr>next_run := now w3 + interval j\<rparr>)), after_job w3)
                 \<and> main_loop (Suc n) loop_config j w0 =
                     (case loop_sleep loop_config (after_job w3) of
                        (Inl x, w4) \<Rightarrow> (Died x, w4)
                      | (Inr _, w4) \<Rightarrow>
                          main_loop n loop_config (j\<lparr>next_run := now w3 + interval j\<rparr>) w4)))
    | Some e' \<Rightarrow>
        (\<exists>w3. run_pipeline name client pipeline_config w = (Inl e', w3)
           \<and> run_logs w3 = run_logs w2 @
                [(now w2, ERROR,
                  [Lit ''Pipeline run failed. See detailed logs: '', Fmt_exn e])]
           \<and> calls w3 = calls w2 @ [Call_metadata_log (Some RUN_FAILURE)]
           \<and> metadata_table w3 = metadata_table w2
           \<and> (\<forall>j w0 n loop_config.
                 w = at_check w0 \<and> next_run j \<le> now w0
                 \<and> invocation j = run_pipeline name client pipeline_config \<longrightarrow>
                   main_loop (Suc n) loop_config j w0 = (Died e', after_job w3))))"
proof (cases "next_meta_fault w2")
  case None
  define w3 where "w3 = snd (run_pipeline_handler (MetaDataLogging name client config) e w2)"
  have r: "run_pipeline name client pipeline_config w = (Inr (), w3)"
    using pipeline_failure_reaches_handler [OF cfg lfp start body] None
    by (simp add: handler_outcome w3_def)
  have f: "run_logs w3 = run_logs w2 @
      [(now w2, ERROR, [Lit ''Pipeline run failed. See detailed logs: '', Fmt_exn e])]"
    "metadata_table w3 = metadata_table w2 @
      [\<lparr>rr_pipeline_name = name, rr_timestamp = now w2,
        rr_status = Some RUN_FAILURE, rr_logs = Some (run_logs w3)\<rparr>]"
    "handlers w3 = 0"
    "calls w3 = calls w2 @ [Call_metadata_log (Some RUN_FAILURE)]"
    using None by (simp_all add: w3_def handler_outcome MetaDataLogging_def failure_line_def)
  have "run_pending j w0 =
          (Inr (Some (j\<lparr>next_run := now w3 + interval j\<rparr>)), after_job w3)
      \<and> main_loop (Suc n) loop_config j w0 =
          (case loop_sleep loop_config (after_job w3) of
             (Inl x, w4) \<Rightarrow> (Died x, w4)
           | (Inr _, w4) \<Rightarrow>
               main_loop n loop_config (j\<lparr>next_run := now w3 + interval j\<rparr>) w4)"
    if "w = at_check w0" "next_run j \<le> now w0" "0 < interval j"
      "invocation j = run_pipeline name client pipeline_config"
    for j w0 n loop_config
  proof -
    have "run_pending j w0 =
          (Inr (Some (j\<lparr>next_run := now w3 + interval j\<rparr>)), after_job w3)"
      using that r by (simp add: run_pending_when_due next_run_after_def)
    then show ?thesis by simp
  qed
  with r f None show ?thesis by auto
next
  case (Some e')
  define w3 where "w3 = snd (run_pipeline_handler (MetaDataLogging name client config) e w2)"
  have r: "run_pipeline name client pipeline_config w = (Inl e', w3)"
    using pipeline_failure_reaches_handler [OF cfg lfp start body] Some
    by (simp add: handler_outcome w3_def)
  have f: "run_logs w3 = run_logs w2 @
      [(now w2, ERROR, [Lit ''Pipeline run failed. See detailed logs: '', Fmt_exn e])]"
    "metadata_table w3 = metadata_table w2"
    "calls w3 = calls w2 @ [Call_metadata_log (Some RUN_FAILURE)]"
    using Some by (simp_all add: w3_def handler_outcome failure_line_def)
  have "main_loop (Suc n) loop_config j w0 = (Died e', after_job w3)"
    if "w = at_check w0" "next_run j \<le> now w0"
      "invocation j = run_pipeline name client pipeline_config"
    for j w0 n loop_config
    using that r by (simp add: run_pending_when_due)
  with r f Some show ?thesis by auto
qed


lemma demo_schedule:
  "dict_get demo_config ''schedule''
     = Inr (JObj [(''run_seconds'', JNum 30), (''poll_seconds'', JNum 5)])"
  "dict_get (JObj [(''run_seconds'', JNum 30), (''poll_seconds'', JNum 5)]) ''poll_seconds''
     = Inr (JNum 5)"
  "as_number (JNum 5) = Some (Finite 5)"
  "sleepable 5"
  by (simp_all add: demo_config_def sleepable_def)

lemma due_job_facts:
  "invocation due_job = run_pipeline (JStr ''earthquakes'') demo_client demo_config"
  "interval due_job = 30" "next_run due_job = 0"
  "job_pipeline_config due_job = demo_config"
  by (simp_all add: invocation_def due_job_def demo_job_def)

text \<open>
  The theorem at work on two runs, each at a check that finds the job due. The feed
  answers 503 and the logging database is up: the pipeline raises \<open>FetchError\<close>,
  \<^verbatim>\<open>run_pipeline\<close> returns, the run's rows are the start marker and the failure
  marker, the job is due again 30 seconds later and the loop goes to sleep. The feed
  answers 503 and the logging database rejects the failure marker: \<^verbatim>\<open>run_pipeline\<close>
  raises the recorder's exception and the loop ends with it.
\<close>

theorem run_failure_is_recorded_and_loop_goes_on_witness:
  "fst (pipeline demo_settings
          (started (JStr ''earthquakes'') demo_client demo_settings (JStr ''logs'')
             (at_check feed_down_world))) = Inl (FetchError ''503'')
   \<and> fst (run_pipeline (JStr ''earthquakes'') demo_client demo_config
            (at_check feed_down_world)) = Inr ()
   \<and> map rr_status (metadata_table
        (snd (run_pipeline (JStr ''earthquakes'') demo_client demo_config
                (at_check feed_down_world))))
      = [None, Some RUN_FAILURE]
   \<and> fst (run_pending due_job feed_down_world) = Inr (Some (due_job\<lparr>next_run := 30\<rparr>))
   \<and> fst (main_loop 1 demo_config due_job feed_down_world) = Running
   \<and> last (calls (snd (main_loop 1 demo_config due_job feed_down_world))) = Call_sleep 5
   \<and> fst (run_pipeline (JStr ''earthquakes'') demo_client demo_config
            (at_check feed_and_logging_down_world)) = Inl (Exception ''logging database down'')
   \<and> fst (main_loop 1 demo_config due_job feed_and_logging_down_world)
       = Died (Exception ''logging database down'')"
proof -
  let ?n = "JStr ''earthquakes''"
  let ?W = "at_check feed_down_world"
  let ?w1 = "started ?n demo_client demo_settings (JStr ''logs'') ?W"
  let ?w2 = "snd (pipeline demo_settings ?w1)"
  have acc: "next_meta_fault ?W = None" and nf: "next_feed ?W = Inl (FetchError ''503'')"
    and ms: "meta_script ?W = []" and mt: "metadata_table ?W = []"
    and nw: "now ?W = 0" "now feed_down_world = 0"
    by (simp_all add: at_check_def feed_down_world_def quiet_world_def next_meta_fault_def
        next_feed_def)
  note u = run_up_to_failed_fetch [OF demo_settings_def acc nf, of ?n demo_client "JStr ''logs''"]
  have h5: "next_meta_fault ?w2 = None"
    by (simp add: next_meta_fault_def u(3) ms)
  have t: "map rr_status (metadata_table ?w2) = [None]"
    by (simp add: u(4) mt)
  from run_failure_is_recorded_and_loop_goes_on
    [OF demo_config_config demo_settings_log_folder_path u(1) u(2)] h5
  obtain w3 where r: "run_pipeline ?n demo_client demo_config ?W = (Inr (), w3)"
    and m: "metadata_table w3 = metadata_table ?w2 @
                [\<lparr>rr_pipeline_name = ?n, rr_timestamp = now ?w2,
                  rr_status = Some RUN_FAILURE, rr_logs = Some (run_logs w3)\<rparr>]"
    and s: "\<forall>j w0 n loop_config.
                 ?W = at_check w0 \<and> next_run j \<le> now w0 \<and> 0 < interval j
                 \<and> invocation j = run_pipeline ?n demo_client demo_config \<longrightarrow>
                   run_pending j w0 =
                     (Inr (Some (j\<lparr>next_run := now w3 + interval j\<rparr>)), after_job w3)
                 \<and> main_loop (Suc n) loop_config j w0 =
                     (case loop_sleep loop_config (after_job w3) of
                        (Inl x, w4) \<Rightarrow> (Died x, w4)
                      | (Inr _, w4) \<Rightarrow>
                          main_loop n loop_config (j\<lparr>next_run := now w3 + interval j\<rparr>) w4)"
    by auto
  have n3: "now w3 = 0"
    using framesD [OF frames_now_run_pipeline r] nw by simp
  from s [rule_format, of feed_down_world due_job 0 demo_config]
  have rp: "run_pending due_job feed_down_world =
              (Inr (Some (due_job\<lparr>next_run := 30\<rparr>)), after_job w3)"
    and ml: "main_loop (Suc 0) demo_config due_job feed_down_world =
               (case loop_sleep demo_config (after_job w3) of
                  (Inl x, w4) \<Rightarrow> (Died x, w4)
                | (Inr _, w4) \<Rightarrow> main_loop 0 demo_config (due_job\<lparr>next_run := 30\<rparr>) w4)"
    by (simp_all add: due_job_facts nw n3)
  have ml': "main_loop 1 demo_config due_job feed_down_world =
      (Running, (after_job w3)\<lparr>now := now (after_job w3) + 5,
                   calls := calls (after_job w3) @ [Call_sleep 5]\<rparr>)"
    using ml by (simp add: loop_sleep_outcome [OF demo_schedule])
  have rows: "map rr_status (metadata_table w3) = [None, Some RUN_FAILURE]"
    by (simp add: m t)
  let ?V = "at_check feed_and_logging_down_world"
  let ?v2 = "snd (pipeline demo_settings
               (started ?n demo_client demo_settings (JStr ''logs'') ?V))"
  have acc': "next_meta_fault ?V = None" and nf': "next_feed ?V = Inl (FetchError ''503'')"
    and ms': "meta_script ?V = [None, Some (Exception ''logging database down'')]"
    and nw': "now feed_and_logging_down_world = 0"
    by (simp_all add: at_check_def feed_and_logging_down_world_def quiet_world_def
        next_meta_fault_def next_feed_def)
  note u' = run_up_to_failed_fetch [OF demo_settings_def acc' nf',
      of ?n demo_client "JStr ''logs''"]
  have h5': "next_meta_fault ?v2 = Some (Exception ''logging database down'')"
    by (simp add: next_meta_fault_def u'(3) ms')
  from run_failure_is_recorded_and_loop_goes_on
    [OF demo_config_config demo_settings_log_folder_path u'(1) u'(2)] h5'
  obtain v3 where r': "run_pipeline ?n demo_client demo_config ?V
        = (Inl (Exception ''logging database down''), v3)"
    and s': "\<forall>j w0 n loop_config.
                 ?V = at_check w0 \<and> next_run j \<le> now w0
                 \<and> invocation j = run_pipeline ?n demo_client demo_config \<longrightarrow>
                   main_loop (Suc n) loop_config j w0
                     = (Died (Exception ''logging database down''), after_job v3)"
    by auto
  from s' [rule_format, of feed_and_logging_down_world due_job 0 demo_config]
  have dies: "main_loop (Suc 0) demo_config due_job feed_and_logging_down_world
      = (Died (Exception ''logging database down''), after_job v3)"
    by (simp add: due_job_facts nw')
  from r rp ml' u(5) rows r' dies show ?thesis by simp
qed

text \<open>
  C1 as written (every run in which the pipeline body raises returns normally, and a
  run's failure never ends the process) fails when the logging database rejects the
  failure marker: the feed answers 503 and the second call of the recorder fails;
  \<^verbatim>\<open>run_pipeline\<close> raises the recorder's exception and the loop ends with it.
\<close>

theorem failure_marker_fault_ends_the_process:
  "fst (pipeline demo_settings
          (started (JStr ''earthquakes'') demo_client demo_settings (JStr ''logs'')
             (at_check feed_and_logging_down_world))) = Inl (FetchError ''503'')
   \<and> fst (run_pipeline (JStr ''earthquakes'') demo_client demo_config
            (at_check feed_and_logging_down_world)) = Inl (Exception ''logging database down'')
   \<and> fst (main_loop 1 demo_config due_job feed_and_logging_down_world)
       = Died (Exception ''logging database down'')"
proof -
  let ?n = "JStr ''earthquakes''"
  let ?W = "at_check feed_and_logging_down_world"
  let ?w1 = "started ?n demo_client demo_settings (JStr ''logs'') ?W"
  let ?w2 = "snd (pipeline demo_settings ?w1)"
  have acc: "next_meta_fault ?W = None" and nf: "next_feed ?W = Inl (FetchError ''503'')"
    and ms: "meta_script ?W = [None, Some (Exception ''logging database down'')]"
    and nw: "now feed_and_logging_down_world = 0"
    by (simp_all add: at_check_def feed_and_logging_down_world_def quiet_world_def
        next_meta_fault_def next_feed_def)
  note u = run_up_to_failed_fetch [OF demo_settings_def acc nf, of ?n demo_client "JStr ''logs''"]
  have h5: "next_meta_fault ?w2 = Some (Exception ''logging database down'')"
    by (simp add: next_meta_fault_def u(3) ms)
  have "run_pipeline ?n demo_client demo_config ?W =
          run_pipeline_handler (MetaDataLogging ?n demo_client demo_settings)
            (FetchError ''503'') ?w2"
    by (rule pipeline_failure_reaches_handler
          [OF demo_config_config demo_settings_log_folder_path u(1) u(2)])
  then have r: "fst (run_pipeline ?n demo_client demo_config ?W)
      = Inl (Exception ''logging database down'')"
    by (simp add: handler_outcome h5)
  then have "fst (main_loop 1 demo_config due_job feed_and_logging_down_world)
       = Died (Exception ''logging database down'')"
    by (cases "run_pipeline ?n demo_client demo_config ?W")
       (simp add: run_pending_when_due due_job_facts nw)
  with r u(5) show ?thesis by simp
qed


text \<open>
  A run whose start marker is accepted and whose pipeline meets no failure: the worlds it
  goes through before the success marker.
\<close>

lemma run_up_to_success_marker:
  assumes kv: "config = JObj kvs"
    and acc: "next_meta_fault w = None"
    and nf: "next_feed w = Inr raw" and shape: "features_of raw = Some df"
    and ls: "load_script w = []"
  shows "metadata_log (MetaDataLogging name client config) None None
           (snd (PipelineLogging name log_folder_path w))
         = (Inr (), started name client config log_folder_path w)"
    and "pipeline config (started name client config log_folder_path w)
         = (Inr (), snd (pipeline config (started name client config log_folder_path w)))"
    and "meta_script (snd (pipeline config (started name client config log_folder_path w)))
         = tl (meta_script w)"
    and "map rr_status (metadata_table
           (snd (pipeline config (started name client config log_folder_path w))))
         = map rr_status (metadata_table w) @ [None]"
    and "fst (pipeline config (started name client config log_folder_path w)) = Inr ()"
proof -
  let ?w1 = "started name client config log_folder_path w"
  have a0: "next_meta_fault (snd (PipelineLogging name log_folder_path w)) = None"
    "next_meta_fault (w\<lparr>run_logs := [], handlers := Suc (handlers w)\<rparr>) = None"
    using acc by (simp_all add: next_meta_fault_def PipelineLogging_def)
  show s: "metadata_log (MetaDataLogging name client config) None None
           (snd (PipelineLogging name log_folder_path w)) = (Inr (), ?w1)"
    by (simp add: started_def metadata_log_outcome a0)
  have nf1: "next_feed ?w1 = Inr raw" and ls1: "load_script ?w1 = []"
    using nf ls by (simp_all add: started_def metadata_log_outcome a0 next_feed_def
        PipelineLogging_def)
  show ok: "fst (pipeline config ?w1) = Inr ()"
    by (rule pipeline_returns_when_nothing_fails [OF kv nf1 shape ls1])
  then show "pipeline config ?w1 = (Inr (), snd (pipeline config ?w1))"
    by (simp add: prod_eq_iff)
  obtain r w2 where p: "pipeline config ?w1 = (r, w2)" by (cases "pipeline config ?w1")
  have "meta_script w2 = meta_script ?w1" "metadata_table w2 = metadata_table ?w1"
    using p frames_pipeline [of config] by (auto dest: framesD)
  with p show "meta_script (snd (pipeline config ?w1)) = tl (meta_script w)"
    and "map rr_status (metadata_table (snd (pipeline config ?w1)))
         = map rr_status (metadata_table w) @ [None]"
    by (simp_all add: started_def metadata_log_outcome a0 PipelineLogging_def)
qed

text \<open>
  C2 (amended). The start-marker call and the success end-marker call of the Metadata
  Recorder stand inside the \<^verbatim>\<open>try\<close> of \<^verbatim>\<open>run_pipeline\<close>: an exception either of them
  raises is caught by the \<^verbatim>\<open>except BaseException\<close> handler, which logs the error line
  and makes the failure-marker call, and it is not propagated. Only the failure-marker
  call, made from the handler, is unguarded: the handler ends as that call ends, so a
  failure it raises propagates to the caller of \<^verbatim>\<open>run_pipeline\<close>; and every exception
  \<^verbatim>\<open>run_pipeline\<close> propagates is a failure of that call. The hypotheses say that the
  configuration has a \<^verbatim>\<open>config\<close> mapping, so that the recorder is created and the
  \<^verbatim>\<open>try\<close> is reached.
\<close>

theorem recorder_failure_propagates_only_from_handler:
  assumes cfg: "dict_get pipeline_config ''config'' = Inr config"
    and lfp: "dict_get config ''log_folder_path'' = Inr log_folder_path"
  shows "(\<forall>e w1. metadata_log (MetaDataLogging name client config) None None
                 (snd (PipelineLogging name log_folder_path w)) = (Inl e, w1) \<longrightarrow>
            run_pipeline name client pipeline_config w =
              run_pipeline_handler (MetaDataLogging name client config) e w1)
     \<and> (\<forall>w1 u w2 e w3.
            metadata_log (MetaDataLogging name client config) None None
              (snd (PipelineLogging name log_folder_path w)) = (Inr (), w1)
            \<and> pipeline config w1 = (Inr u, w2)
            \<and> metadata_log (MetaDataLogging name client config) (Some RUN_SUCCESS)
                (Some (run_logs w2)) w2 = (Inl e, w3) \<longrightarrow>
            run_pipeline name client pipeline_config w =
              run_pipeline_handler (MetaDataLogging name client config) e w3)
     \<and> (\<forall>e w'. run_pipeline_handler (MetaDataLogging name client config) e w' =
            (case metadata_log (MetaDataLogging name client config) (Some RUN_FAILURE)
                    (Some (run_logs w' @ [failure_line w' e]))
                    (w'\<lparr>run_logs := run_logs w' @ [failure_line w' e]\<rparr>) of
               (Inl e', w'') \<Rightarrow> (Inl e', w'')
             | (Inr _, w'') \<Rightarrow> (Inr (), w''\<lparr>handlers := 0\<rparr>)))
     \<and> (\<forall>e'. fst (run_pipeline name client pipeline_config w) = Inl e' \<longrightarrow>
            (\<exists>e w'. run_pipeline name client pipeline_config w =
                       run_pipeline_handler (MetaDataLogging name client config) e w'
                    \<and> fst (metadata_log (MetaDataLogging name client config)
                         (Some RUN_FAILURE) (Some (run_logs w' @ [failure_line w' e]))
                         (w'\<lparr>run_logs := run_logs w' @ [failure_line w' e]\<rparr>)) = Inl e'))"
proof (intro conjI allI impI)
  fix e w1
  assume "metadata_log (MetaDataLogging name client config) None None
            (snd (PipelineLogging name log_folder_path w)) = (Inl e, w1)"
  then show "run_pipeline name client pipeline_config w =
      run_pipeline_handler (MetaDataLogging name client config) e w1"
    by (rule start_marker_failure_reaches_handler [OF cfg lfp])
next
  fix w1 u w2 e w3
  assume "metadata_log (MetaDataLogging name client config) None None
              (snd (PipelineLogging name log_folder_path w)) = (Inr (), w1)
            \<and> pipeline config w1 = (Inr u, w2)
            \<and> metadata_log (MetaDataLogging name client config) (Some RUN_SUCCESS)
                (Some (run_logs w2)) w2 = (Inl e, w3)"
  then show "run_pipeline name client pipeline_config w =
      run_pipeline_handler (MetaDataLogging name client config) e w3"
    using success_marker_failure_reaches_handler [OF cfg lfp] by blast
next
  fix e w'
  show "run_pipeline_handler (MetaDataLogging name client config) e w' =
            (case metadata_log (MetaDataLogging name client config) (Some RUN_FAILURE)
                    (Some (run_logs w' @ [failure_line w' e]))
                    (w'\<lparr>run_logs := run_logs w' @ [failure_line w' e]\<rparr>) of
               (Inl e', w'') \<Rightarrow> (Inl e', w'')
             | (Inr _, w'') \<Rightarrow> (Inr (), w''\<lparr>handlers := 0\<rparr>))"
    by (rule handler_is_failure_marker)
next
  fix e'
  assume "fst (run_pipeline name client pipeline_config w) = Inl e'"
  from run_pipeline_raises_from_handler [OF cfg lfp this]
  obtain e w' where h: "run_pipeline name client pipeline_config w =
                  run_pipeline_handler (MetaDataLogging name client config) e w'"
    and f: "next_meta_fault w' = Some e'"
    by blast
  have "fst (metadata_log (MetaDataLogging name client config)
              (Some RUN_FAILURE) (Some (run_logs w' @ [failure_line w' e]))
              (w'\<lparr>run_logs := run_logs w' @ [failure_line w' e]\<rparr>)) = Inl e'"
    using f by (simp add: metadata_log_outcome next_meta_fault_def)
  with h show "\<exists>e w'. run_pipeline name client pipeline_config w =
                       run_pipeline_handler (MetaDataLogging name client config) e w'
                    \<and> fst (metadata_log (MetaDataLogging name client config)
                         (Some RUN_FAILURE) (Some (run_logs w' @ [failure_line w' e]))
                         (w'\<lparr>run_logs := run_logs w' @ [failure_line w' e]\<rparr>)) = Inl e'"
    by blast
qed

lemma start_marker_fails_example:
  "metadata_log (MetaDataLogging (JStr ''earthquakes'') demo_client demo_settings) None None
     (snd (PipelineLogging (JStr ''earthquakes'') (JStr ''logs'') logging_down_at_start_world))
   = (Inl (Exception ''logging database down''),
      started (JStr ''earthquakes'') demo_client demo_settings (JStr ''logs'')
        logging_down_at_start_world)"
  by (simp add: example_defs logging_down_at_start_world_def)

lemma after_failed_start_example:
  "next_meta_fault (started (JStr ''earthquakes'') demo_client demo_settings (JStr ''logs'')
        logging_down_at_start_world) = None"
  "metadata_table (started (JStr ''earthquakes'') demo_client demo_settings (JStr ''logs'')
        logging_down_at_start_world) = []"
  by (simp_all add: example_defs logging_down_at_start_world_def)

text \<open>
  The run in which the feed is in order and the logging database rejects the second call,
  the success marker: the worlds before and after that call.
\<close>

lemma success_marker_fails_example:
  fixes w2
  assumes w2: "w2 = snd (pipeline demo_settings
     (started (JStr ''earthquakes'') demo_client demo_settings (JStr ''logs'')
        logging_down_at_end_world))"
  shows "metadata_log (MetaDataLogging (JStr ''earthquakes'') demo_client demo_settings)
             None None
             (snd (PipelineLogging (JStr ''earthquakes'') (JStr ''logs'')
                     logging_down_at_end_world))
           = (Inr (), started (JStr ''earthquakes'') demo_client demo_settings (JStr ''logs'')
                 logging_down_at_end_world)"
    and "pipeline demo_settings
           (started (JStr ''earthquakes'') demo_client demo_settings (JStr ''logs'')
              logging_down_at_end_world) = (Inr (), w2)"
    and "metadata_log (MetaDataLogging (JStr ''earthquakes'') demo_client demo_settings)
           (Some RUN_SUCCESS) (Some (run_logs w2)) w2
         = (Inl (Exception ''logging database down''),
            w2\<lparr>calls := calls w2 @ [Call_metadata_log (Some RUN_SUCCESS)],
                meta_script := []\<rparr>)"
    and "map rr_status (metadata_table w2) = [None]"
    and "fst (pipeline demo_settings
           (started (JStr ''earthquakes'') demo_client demo_settings (JStr ''logs'')
              logging_down_at_end_world)) = Inr ()"
proof -
  have acc: "next_meta_fault logging_down_at_end_world = None"
    and nf: "next_feed logging_down_at_end_world = Inr (JArr [])"
    and ls: "load_script logging_down_at_end_world = []"
    and ms: "meta_script logging_down_at_end_world
               = [None, Some (Exception ''logging database down'')]"
    and mt: "metadata_table logging_down_at_end_world = []"
    by (simp_all add: logging_down_at_end_world_def quiet_world_def next_meta_fault_def
        next_feed_def)
  have sh: "features_of (JArr []) = Some []" by simp
  note u = run_up_to_success_marker [OF demo_settings_def acc nf sh ls,
      of "JStr ''earthquakes''" demo_client "JStr ''logs''"]
  show "metadata_log (MetaDataLogging (JStr ''earthquakes'') demo_client demo_settings)
             None None
             (snd (PipelineLogging (JStr ''earthquakes'') (JStr ''logs'')
                     logging_down_at_end_world))
           = (Inr (), started (JStr ''earthquakes'') demo_client demo_settings (JStr ''logs'')
                 logging_down_at_end_world)"
    by (rule u(1))
  show "pipeline demo_settings
           (started (JStr ''earthquakes'') demo_client demo_settings (JStr ''logs'')
              logging_down_at_end_world) = (Inr (), w2)"
    unfolding w2 by (rule u(2))
  have m2: "meta_script w2 = [Some (Exception ''logging database down'')]"
    unfolding w2 by (simp add: u(3) ms)
  then show "metadata_log (MetaDataLogging (JStr ''earthquakes'') demo_client demo_settings)
           (Some RUN_SUCCESS) (Some (run_logs w2)) w2
         = (Inl (Exception ''logging database down''),
            w2\<lparr>calls := calls w2 @ [Call_metadata_log (Some RUN_SUCCESS)],
                meta_script := []\<rparr>)"
    by (simp add: metadata_log_outcome next_meta_fault_def)
  show "map rr_status (metadata_table w2) = [None]"
    unfolding w2 by (simp add: u(4) mt)
  show "fst (pipeline demo_settings
           (started (JStr ''earthquakes'') demo_client demo_settings (JStr ''logs'')
              logging_down_at_end_world)) = Inr ()"
    by (rule u(5))
qed

text \<open>
  The theorem at work on three runs: one in which the start marker fails and one in which
  the success marker fails (the handler takes over and \<^verbatim>\<open>run_pipeline\<close> returns), one
  in which the feed fails and then the failure marker fails (the recorder's exception
  reaches the caller).
\<close>

theorem recorder_failure_propagates_only_from_handler_witness:
  "fst (metadata_log (MetaDataLogging (JStr ''earthquakes'') demo_client demo_settings)
          None None
          (snd (PipelineLogging (JStr ''earthquakes'') (JStr ''logs'')
                  logging_down_at_start_world)))
     = Inl (Exception ''logging database down'')
   \<and> fst (run_pipeline (JStr ''earthquakes'') demo_client demo_config
            logging_down_at_start_world) = Inr ()
   \<and> fst (pipeline demo_settings
            (started (JStr ''earthquakes'') demo_client demo_settings (JStr ''logs'')
               logging_down_at_end_world)) = Inr ()
   \<and> metadata_calls (calls
        (snd (run_pipeline (JStr ''earthquakes'') demo_client demo_config
                logging_down_at_end_world)))
       = [None, Some RUN_SUCCESS, Some RUN_FAILURE]
   \<and> fst (run_pipeline (JStr ''earthquakes'') demo_client demo_config
            logging_down_at_end_world) = Inr ()
   \<and> map rr_status (metadata_table
        (snd (run_pipeline (JStr ''earthquakes'') demo_client demo_config
                logging_down_at_end_world))) = [None, Some RUN_FAILURE]
   \<and> fst (run_pipeline (JStr ''earthquakes'') demo_client demo_config
            feed_and_logging_down_world) = Inl (Exception ''logging database down'')
   \<and> (\<exists>e w'. fst (metadata_log
                     (MetaDataLogging (JStr ''earthquakes'') demo_client demo_settings)
                     (Some RUN_FAILURE) (Some (run_logs w' @ [failure_line w' e]))
                     (w'\<lparr>run_logs := run_logs w' @ [failure_line w' e]\<rparr>))
                = Inl (Exception ''logging database down''))"
proof -
  let ?n = "JStr ''earthquakes''"
  let ?lg = "MetaDataLogging ?n demo_client demo_settings"
  note thm1 = recorder_failure_propagates_only_from_handler
    [OF demo_config_config demo_settings_log_folder_path,
     of ?n demo_client logging_down_at_start_world]
  note thm2 = recorder_failure_propagates_only_from_handler
    [OF demo_config_config demo_settings_log_folder_path,
     of ?n demo_client logging_down_at_end_world]
  note thm3 = recorder_failure_propagates_only_from_handler
    [OF demo_config_config demo_settings_log_folder_path,
     of ?n demo_client feed_and_logging_down_world]
  have a: "run_pipeline ?n demo_client demo_config logging_down_at_start_world
     = run_pipeline_handler ?lg (Exception ''logging database down'')
         (started ?n demo_client demo_settings (JStr ''logs'') logging_down_at_start_world)"
    using thm1 start_marker_fails_example by blast
  have a': "fst (run_pipeline ?n demo_client demo_config logging_down_at_start_world) = Inr ()"
    by (simp add: a handler_outcome after_failed_start_example)
  define w2 where "w2 = snd (pipeline demo_settings
     (started ?n demo_client demo_settings (JStr ''logs'') logging_down_at_end_world))"
  note x = success_marker_fails_example [OF w2_def]
  let ?w3 = "w2\<lparr>calls := calls w2 @ [Call_metadata_log (Some RUN_SUCCESS)],
                meta_script := []\<rparr>"
  have b: "run_pipeline ?n demo_client demo_config logging_down_at_end_world
     = run_pipeline_handler ?lg (Exception ''logging database down'') ?w3"
    using thm2 x(1,2,3) by blast
  have c0: "calls (started ?n demo_client demo_settings (JStr ''logs'')
               logging_down_at_end_world) = [Call_metadata_log None]"
    by (simp add: example_defs logging_down_at_end_world_def)
  from pipeline_metadata_calls [OF x(2)] c0 have c2: "metadata_calls (calls w2) = [None]"
    by (auto simp: metadata_calls_append)
  have b': "fst (run_pipeline ?n demo_client demo_config logging_down_at_end_world) = Inr ()"
    "map rr_status (metadata_table
        (snd (run_pipeline ?n demo_client demo_config logging_down_at_end_world)))
      = [None, Some RUN_FAILURE]"
    "metadata_calls (calls
        (snd (run_pipeline ?n demo_client demo_config logging_down_at_end_world)))
      = [None, Some RUN_SUCCESS, Some RUN_FAILURE]"
    by (simp_all add: b handler_outcome next_meta_fault_def x(4) c2 metadata_calls_append)
  have acc: "next_meta_fault feed_and_logging_down_world = None"
    and nf: "next_feed feed_and_logging_down_world = Inl (FetchError ''503'')"
    and ms: "meta_script feed_and_logging_down_world
               = [None, Some (Exception ''logging database down'')]"
    by (simp_all add: feed_and_logging_down_world_def quiet_world_def next_meta_fault_def
        next_feed_def)
  note u = run_up_to_failed_fetch [OF demo_settings_def acc nf, of ?n demo_client "JStr ''logs''"]
  let ?v2 = "snd (pipeline demo_settings
     (started ?n demo_client demo_settings (JStr ''logs'') feed_and_logging_down_world))"
  have h5: "next_meta_fault ?v2 = Some (Exception ''logging database down'')"
    by (simp add: next_meta_fault_def u(3) ms)
  have "run_pipeline ?n demo_client demo_config feed_and_logging_down_world
      = run_pipeline_handler ?lg (FetchError ''503'') ?v2"
    by (rule pipeline_failure_reaches_handler
          [OF demo_config_config demo_settings_log_folder_path u(1) u(2)])
  then have c: "fst (run_pipeline ?n demo_client demo_config feed_and_logging_down_world)
      = Inl (Exception ''logging database down'')"
    by (simp add: handler_outcome h5)
  with thm3 have d: "\<exists>e w'. fst (metadata_log ?lg
                     (Some RUN_FAILURE) (Some (run_logs w' @ [failure_line w' e]))
                     (w'\<lparr>run_logs := run_logs w' @ [failure_line w' e]\<rparr>))
                = Inl (Exception ''logging database down'')"
    by blast
  show ?thesis
    using a' b' c d start_marker_fails_example x(5) by simp
qed

text \<open>
  C2 as written (any failure of a Metadata Recorder call propagates to the caller) fails
  for the start marker: the logging database rejects the first call, and
  \<^verbatim>\<open>run_pipeline\<close> returns normally.
\<close>

theorem start_marker_failure_is_swallowed:
  "fst (metadata_log (MetaDataLogging (JStr ''earthquakes'') demo_client demo_settings)
          None None
          (snd (PipelineLogging (JStr ''earthquakes'') (JStr ''logs'')
                  logging_down_at_start_world)))
     = Inl (Exception ''logging database down'')
   \<and> fst (run_pipeline (JStr ''earthquakes'') demo_client demo_config
            logging_down_at_start_world) = Inr ()"
proof -
  have "run_pipeline (JStr ''earthquakes'') demo_client demo_config
          logging_down_at_start_world
     = run_pipeline_handler (MetaDataLogging (JStr ''earthquakes'') demo_client demo_settings)
         (Exception ''logging database down'')
         (started (JStr ''earthquakes'') demo_client demo_settings (JStr ''logs'')
            logging_down_at_start_world)"
    by (rule start_marker_failure_reaches_handler
          [OF demo_config_config demo_settings_log_folder_path start_marker_fails_example])
  then show ?thesis
    by (simp add: handler_outcome after_failed_start_example start_marker_fails_example)
qed


text \<open>
  C10 (amended). An exception raised inside the pipeline body is never propagated by
  \<^verbatim>\<open>run_pipeline\<close>, whatever its class: the handler catches \<^verbatim>\<open>BaseException\<close>, so
  \<^verbatim>\<open>KeyboardInterrupt\<close> and \<^verbatim>\<open>SystemExit\<close> are caught as well. The handler logs the
  error line and makes the failure call of the Metadata Recorder. When that call succeeds,
  the failure row is appended and \<^verbatim>\<open>run_pipeline\<close> returns normally; when it fails, no
  row is appended and \<^verbatim>\<open>run_pipeline\<close> raises the recorder's exception (not the
  pipeline's). The hypotheses say that the \<^verbatim>\<open>try\<close> is reached, that the start marker was
  written and that the pipeline raised \<open>e\<close>.
\<close>

theorem run_pipeline_catches_every_exception_class:
  assumes cfg: "dict_get pipeline_config ''config'' = Inr config"
    and lfp: "dict_get config ''log_folder_path'' = Inr log_folder_path"
    and start: "metadata_log (MetaDataLogging name client config) None None
                  (snd (PipelineLogging name log_folder_path w)) = (Inr (), w1)"
    and body: "pipeline config w1 = (Inl e, w2)"
  shows "isinstance e BaseException_class
     \<and> fst (run_pipeline name client pipeline_config w) =
         (case next_meta_fault w2 of None \<Rightarrow> Inr () | Some e' \<Rightarrow> Inl e')
     \<and> last (run_logs (snd (run_pipeline name client pipeline_config w))) =
         (now w2, ERROR, [Lit ''Pipeline run failed. See detailed logs: '', Fmt_exn e])
     \<and> metadata_table (snd (run_pipeline name client pipeline_config w)) =
         (case next_meta_fault w2 of
            None \<Rightarrow> metadata_table w2 @
              [\<lparr>rr_pipeline_name = name, rr_timestamp = now w2, rr_status = Some RUN_FAILURE,
                rr_logs = Some (run_logs (snd (run_pipeline name client pipeline_config w)))\<rparr>]
          | Some e' \<Rightarrow> metadata_table w2)"
  using pipeline_failure_reaches_handler [OF cfg lfp start body]
  by (simp add: handler_outcome MetaDataLogging_def isinstance_BaseException failure_line_def
      split: option.splits)

text \<open>
  The theorem at work: a \<^verbatim>\<open>KeyboardInterrupt\<close> while the feed is read is not an
  \<^verbatim>\<open>Exception\<close>, and still \<^verbatim>\<open>run_pipeline\<close> returns and records the failure.
\<close>

theorem run_pipeline_catches_every_exception_class_witness:
  "fst (pipeline demo_settings
          (started (JStr ''earthquakes'') demo_client demo_settings (JStr ''logs'')
             interrupted_world)) = Inl KeyboardInterrupt
   \<and> \<not> isinstance KeyboardInterrupt Exception_class
   \<and> fst (run_pipeline (JStr ''earthquakes'') demo_client demo_config interrupted_world)
       = Inr ()
   \<and> map rr_status (metadata_table
        (snd (run_pipeline (JStr ''earthquakes'') demo_client demo_config interrupted_world)))
      = [None, Some RUN_FAILURE]"
proof -
  let ?n = "JStr ''earthquakes''"
  let ?w1 = "started ?n demo_client demo_settings (JStr ''logs'') interrupted_world"
  let ?w2 = "snd (pipeline demo_settings ?w1)"
  have h3: "metadata_log (MetaDataLogging ?n demo_client demo_settings) None None
              (snd (PipelineLogging ?n (JStr ''logs'') interrupted_world)) = (Inr (), ?w1)"
    by (simp add: example_defs interrupted_world_def)
  have nf: "next_feed ?w1 = Inl KeyboardInterrupt"
    by (simp add: example_defs interrupted_world_def)
  note p = pipeline_raises_what_fetch_raises [OF demo_settings_def nf]
  have h4: "pipeline demo_settings ?w1 = (Inl KeyboardInterrupt, ?w2)"
    using p(1) by (simp add: prod_eq_iff)
  have h5: "next_meta_fault ?w2 = None"
    by (simp add: p(2) next_meta_fault_def) (simp add: example_defs interrupted_world_def)
  have t: "map rr_status (metadata_table ?w2) = [None]"
    by (simp add: p(3)) (simp add: example_defs interrupted_world_def)
  note inst = run_pipeline_catches_every_exception_class
    [OF demo_config_config demo_settings_log_folder_path h3 h4]
  have r: "fst (run_pipeline ?n demo_client demo_config interrupted_world) = Inr ()"
    using inst h5 by simp
  have "metadata_table (snd (run_pipeline ?n demo_client demo_config interrupted_world)) =
      metadata_table ?w2 @
        [\<lparr>rr_pipeline_name = ?n, rr_timestamp = now ?w2, rr_status = Some RUN_FAILURE,
          rr_logs = Some (run_logs
            (snd (run_pipeline ?n demo_client demo_config interrupted_world)))\<rparr>]"
    using inst h5 by simp
  then have "map rr_status (metadata_table
        (snd (run_pipeline ?n demo_client demo_config interrupted_world)))
      = [None, Some RUN_FAILURE]"
    using t by simp
  with r p(1) show ?thesis by simp
qed

text \<open>
  C10 as written (the exception is recorded as a failure row and \<^verbatim>\<open>run_pipeline\<close>
  returns normally) fails when the failure marker is rejected: after the interrupt, the
  recorder's second call fails; no failure row is written and \<^verbatim>\<open>run_pipeline\<close> raises.
\<close>

theorem interrupt_then_recorder_fault_escapes:
  "fst (pipeline demo_settings
          (started (JStr ''earthquakes'') demo_client demo_settings (JStr ''logs'')
             interrupted_logging_down_world)) = Inl KeyboardInterrupt
   \<and> fst (run_pipeline (JStr ''earthquakes'') demo_client demo_config
            interrupted_logging_down_world) = Inl (Exception ''logging database down'')
   \<and> map rr_status (metadata_table
        (snd (run_pipeline (JStr ''earthquakes'') demo_client demo_config
                interrupted_logging_down_world))) = [None]"
proof -
  let ?n = "JStr ''earthquakes''"
  let ?w1 = "started ?n demo_client demo_settings (JStr ''logs'')
               interrupted_logging_down_world"
  let ?w2 = "snd (pipeline demo_settings ?w1)"
  have h3: "metadata_log (MetaDataLogging ?n demo_client demo_settings) None None
              (snd (PipelineLogging ?n (JStr ''logs'') interrupted_logging_down_world))
            = (Inr (), ?w1)"
    by (simp add: example_defs interrupted_logging_down_world_def)
  have nf: "next_feed ?w1 = Inl KeyboardInterrupt"
    by (simp add: example_defs interrupted_logging_down_world_def)
  note p = pipeline_raises_what_fetch_raises [OF demo_settings_def nf]
  have h4: "pipeline demo_settings ?w1 = (Inl KeyboardInterrupt, ?w2)"
    using p(1) by (simp add: prod_eq_iff)
  have h5: "next_meta_fault ?w2 = Some (Exception ''logging database down'')"
    by (simp add: p(2) next_meta_fault_def)
       (simp add: example_defs interrupted_logging_down_world_def)
  have t: "map rr_status (metadata_table ?w2) = [None]"
    by (simp add: p(3)) (simp add: example_defs interrupted_logging_down_world_def)
  have "run_pipeline ?n demo_client demo_config interrupted_logging_down_world =
          run_pipeline_handler (MetaDataLogging ?n demo_client demo_settings)
            KeyboardInterrupt ?w2"
    by (rule pipeline_failure_reaches_handler
          [OF demo_config_config demo_settings_log_folder_path h3 h4])
  then have "fst (run_pipeline ?n demo_client demo_config interrupted_logging_down_world)
        = Inl (Exception ''logging database down'')"
    and "metadata_table (snd (run_pipeline ?n demo_client demo_config
           interrupted_logging_down_world)) = metadata_table ?w2"
    by (simp_all add: handler_outcome h5)
  with p(1) t show ?thesis by simp
qed


section \<open>The rows of the metadata table\<close>






section \<open>Claims about the pipeline's transforms and tables\<close>

text \<open>
  C3 (amended). A run invokes \<^verbatim>\<open>transform\<close> at most twice, first with the nine paths
  of the first table and then with the five paths of the second: exactly twice when the
  extraction returns a feature collection; once when it returns something else (the
  first invocation raises \<open>TransformError\<close>, which ends the pipeline before the second);
  not at all when the extraction raises or the configuration is not a mapping (the
  pipeline raises before it reaches the first invocation). The two selection lists are
  not disjoint: both contain the key path \<^verbatim>\<open>id\<close>, and that is the only path they share.
\<close>

theorem transform_calls_of_a_run:
  "transform_calls (drop (length (calls w)) (calls (snd (pipeline config w)))) =
     (case config of
        JObj kvs \<Rightarrow>
          (case next_feed w of
             Inl e \<Rightarrow> []
           | Inr raw \<Rightarrow>
               (case features_of raw of
                  None \<Rightarrow> [selection_list_1]
                | Some df \<Rightarrow> [selection_list_1, selection_list_2]))
      | _ \<Rightarrow> [])
   \<and> (case config of
          JObj kvs \<Rightarrow>
            (case next_feed w of
               Inl e \<Rightarrow> fst (pipeline config w) = Inl e
             | Inr raw \<Rightarrow>
                 (case features_of raw of
                    None \<Rightarrow> fst (pipeline config w) = Inl (TransformError ''unexpected shape'')
                  | Some df \<Rightarrow> True))
        | _ \<Rightarrow> fst (pipeline config w) = Inl (AttributeError ''get''))
   \<and> set selection_list_1 \<inter> set selection_list_2 = {''id''}"
proof -
  have ids: "set selection_list_1 \<inter> set selection_list_2 = {''id''}"
    by (auto simp: selection_list_1_def selection_list_2_def)
  show ?thesis
  proof (cases "\<exists>kvs. config = JObj kvs")
    case False
    then have "dict_get config ''base_url'' = Inl (AttributeError ''get'')"
      by (intro dict_get_no_mapping) simp
    from pipeline_when_config_is_no_mapping [OF this, of w] False ids show ?thesis
      by (cases config) simp_all
  next
    case True
    then obtain kvs where kv: "config = JObj kvs" by blast
    show ?thesis
    proof (cases "next_feed w")
      case (Inl e)
      then show ?thesis
        using ids by (simp add: kv pipeline_when_fetch_fails)
    next
      case (Inr raw)
      show ?thesis
      proof (cases "features_of raw")
        case None
        then show ?thesis
          using ids Inr by (simp add: kv pipeline_when_transform_fails)
      next
        case (Some df)
        then show ?thesis
          using ids Inr pipeline_transform_calls [OF Inr Some, of kvs] by (simp add: kv)
      qed
    qed
  qed
qed


text \<open>
  The theorem at work on three runs: the feed returns an empty collection (two
  invocations), the feed answers 503 (none), the feed returns a text (one, which raises).
\<close>

theorem transform_calls_of_a_run_witness:
  "transform_calls (calls (snd (pipeline demo_settings quiet_world)))
       = [selection_list_1, selection_list_2]
   \<and> transform_calls (calls (snd (pipeline demo_settings feed_down_world))) = []
   \<and> fst (pipeline demo_settings feed_down_world) = Inl (FetchError ''503'')
   \<and> transform_calls (calls (snd (pipeline demo_settings odd_feed_world)))
       = [selection_list_1]
   \<and> fst (pipeline demo_settings odd_feed_world) = Inl (TransformError ''unexpected shape'')
   \<and> set selection_list_1 \<inter> set selection_list_2 = {''id''}"
proof -
  have q: "next_feed quiet_world = Inr (JArr [])" "calls quiet_world = []"
    and d: "next_feed feed_down_world = Inl (FetchError ''503'')" "calls feed_down_world = []"
    and o: "next_feed odd_feed_world = Inr (JStr ''maintenance'')" "calls odd_feed_world = []"
    by (simp_all add: next_feed_def quiet_world_def feed_down_world_def odd_feed_world_def)
  obtain kvs where kv: "demo_settings = JObj kvs"
    using demo_settings_def by blast
  from transform_calls_of_a_run [of quiet_world demo_settings]
    transform_calls_of_a_run [of feed_down_world demo_settings]
    transform_calls_of_a_run [of odd_feed_world demo_settings]
  show ?thesis
    by (simp add: kv q d o)
qed

text \<open>
  C3 as written fails three times: the path \<^verbatim>\<open>id\<close> is in both selection lists; in a
  run whose extraction raises \<^verbatim>\<open>transform\<close> is not invoked at all; and in a run whose
  extraction returns something that is no feature collection it is invoked once.
\<close>

theorem selection_lists_overlap_and_failed_fetch_skips_transform:
  "''id'' \<in> set selection_list_1 \<inter> set selection_list_2
   \<and> fst (pipeline demo_settings feed_down_world) = Inl (FetchError ''503'')
   \<and> transform_calls (calls (snd (pipeline demo_settings feed_down_world))) = []
   \<and> transform_calls (calls (snd (pipeline demo_settings odd_feed_world)))
       = [selection_list_1]"
proof -
  have nf: "next_feed feed_down_world = Inl (FetchError ''503'')"
    by (simp add: next_feed_def feed_down_world_def quiet_world_def)
  have c: "calls feed_down_world = []"
    by (simp add: feed_down_world_def quiet_world_def)
  have o: "next_feed odd_feed_world = Inr (JStr ''maintenance'')" "calls odd_feed_world = []"
    "features_of (JStr ''maintenance'') = None"
    by (simp_all add: next_feed_def odd_feed_world_def quiet_world_def)
  have "transform_calls (calls (snd (pipeline demo_settings feed_down_world))) = []"
    unfolding demo_settings_def
    by (simp add: pipeline_when_fetch_fails [OF nf] c)
  moreover have "transform_calls (calls (snd (pipeline demo_settings odd_feed_world)))
       = [selection_list_1]"
    unfolding demo_settings_def
    by (simp add: pipeline_when_transform_fails [OF o(1) o(3)] o(2))
  ultimately show ?thesis
    using pipeline_raises_what_fetch_raises(1) [OF demo_settings_def nf]
    by (simp add: selection_list_1_def selection_list_2_def)
qed


text \<open>
  C6. The two tables the pipeline defines are named \<^verbatim>\<open>table_{table_name}_data\<close> and
  \<^verbatim>\<open>table_{table_name}_2_data\<close>; their columns are those the specification lists, in that
  order (the two time columns are timestamps, \<^verbatim>\<open>properties.gap\<close> is numeric); in each the
  primary key is the single column \<^verbatim>\<open>id\<close>; and the upsert into either table resolves
  conflicts by that key: a stored row is replaced exactly when its \<^verbatim>\<open>id\<close> equals the new
  row's, and the new row is appended when no stored row has its \<^verbatim>\<open>id\<close>.
\<close>

theorem target_tables_keyed_by_id:
  "tbl_name (table table_name) = [Lit ''table_'', Fmt table_name, Lit ''_data'']
   \<and> map col_name (tbl_columns (table table_name)) =
       [''type'', ''id'', ''properties.place'', ''properties.title'', ''properties.time'',
        ''properties.updated'', ''properties.nst'', ''properties.dmin'', ''properties.rms'']
   \<and> map col_type (tbl_columns (table table_name)) =
       [String, String, String, String, TIMESTAMP, TIMESTAMP, String_n 500, String_n 500,
        String_n 500]
   \<and> primary_key_of (tbl_columns (table table_name)) = [''id'']
   \<and> tbl_name (table2 table_name) = [Lit ''table_'', Fmt table_name, Lit ''_2_data'']
   \<and> map col_name (tbl_columns (table2 table_name)) =
       [''id'', ''properties.mag'', ''properties.gap'', ''properties.magType'',
        ''geometry.coordinates'']
   \<and> map col_type (tbl_columns (table2 table_name)) =
       [String, String_n 500, NUMERIC, String, String]
   \<and> primary_key_of (tbl_columns (table2 table_name)) = [''id'']
   \<and> key_of (tbl_columns (table table_name)) r = [map_of r ''id'']
   \<and> key_of (tbl_columns (table2 table_name)) r = [map_of r ''id'']
   \<and> upsert_row (tbl_columns (table table_name)) r stored =
       (let new = conform (tbl_columns (table table_name)) r in
        if list_ex (\<lambda>old. map_of old ''id'' = map_of new ''id'') stored
        then map (\<lambda>old. if map_of old ''id'' = map_of new ''id'' then new else old) stored
        else stored @ [new])
   \<and> upsert_row (tbl_columns (table2 table_name)) r stored =
       (let new = conform (tbl_columns (table2 table_name)) r in
        if list_ex (\<lambda>old. map_of old ''id'' = map_of new ''id'') stored
        then map (\<lambda>old. if map_of old ''id'' = map_of new ''id'' then new else old) stored
        else stored @ [new])"
proof -
  have k: "primary_key_of (tbl_columns (table table_name)) = [''id'']"
    "primary_key_of (tbl_columns (table2 table_name)) = [''id'']"
    by (simp_all add: table_def table2_def Column_def Column_pk_def primary_key_of_def)
  then have "key_of (tbl_columns (table table_name)) = (\<lambda>r. [map_of r ''id''])"
    "key_of (tbl_columns (table2 table_name)) = (\<lambda>r. [map_of r ''id''])"
    by (simp_all add: key_of_def fun_eq_iff)
  then show ?thesis
    using k
    by (simp add: upsert_row_def Let_def)
       (simp add: table_def table2_def Column_def Column_pk_def)
qed

text \<open>
  C7. For every feature collection and every selection list, the table \<^verbatim>\<open>transform\<close>
  returns has the selection list as its columns, in that order; it has one row per
  feature, in the order of the features; the cell of row \<open>i\<close> and column \<open>j\<close> is what the
  \<open>i\<close>-th feature holds under the \<open>j\<close>-th path; and a feature that lacks a requested path
  gives a null cell. There is no error case: the operation is total.
\<close>

theorem transform_shape:
  "columns (transform df selection_list) = selection_list
   \<and> length (cells (transform df selection_list)) = length df
   \<and> (\<forall>i<length df.
        length (cells (transform df selection_list) ! i) = length selection_list
        \<and> (\<forall>j<length selection_list.
              cells (transform df selection_list) ! i ! j
                = cell_of (df ! i) (selection_list ! j)))
   \<and> (\<forall>f p. p \<notin> fst ` set (flatten_fields [] f) \<longrightarrow> cell_of f p = JNull)"
proof -
  have "cell_of f p = JNull" if "p \<notin> fst ` set (flatten_fields [] f)" for f p
    using that by (simp add: cell_of_def map_of_eq_None_iff [THEN iffD2])
  then show ?thesis
    by (simp add: transform_def)
qed

text \<open>
  The theorem at work on the specification's scenario: three features projected on
  \<^verbatim>\<open>["id", "properties.mag"]\<close>; the second feature has no magnitude.
\<close>

theorem transform_shape_witness:
  "transform demo_features [''id'', ''properties.mag''] =
     \<lparr>columns = [''id'', ''properties.mag''],
      cells = [[JStr ''us1'', JNum 5], [JStr ''us2'', JNull], [JStr ''us3'', JNum 2]]\<rparr>
   \<and> length (cells (transform demo_features [''id'', ''properties.mag''])) = 3
   \<and> ''properties.mag'' \<notin> fst ` set (flatten_fields [] (demo_features ! 1))
   \<and> cells (transform demo_features [''id'', ''properties.mag'']) ! 1 ! 1 = JNull"
proof -
  have l: "length demo_features = 3"
    by (simp add: demo_features_def)
  have m: "''properties.mag'' \<notin> fst ` set (flatten_fields [] (demo_features ! 1))"
    by (simp add: demo_features_def join_path_def)
  have e: "transform demo_features [''id'', ''properties.mag''] =
     \<lparr>columns = [''id'', ''properties.mag''],
      cells = [[JStr ''us1'', JNum 5], [JStr ''us2'', JNull], [JStr ''us3'', JNum 2]]\<rparr>"
    by (simp add: transform_def cell_of_def demo_features_def join_path_def)
  note t = transform_shape [of demo_features "[''id'', ''properties.mag'']"]
  have "length (cells (transform demo_features [''id'', ''properties.mag''])) = 3"
    using t l by simp
  moreover have "cell_of (demo_features ! 1) ''properties.mag'' = JNull"
    using t m by blast
  moreover have "cells (transform demo_features [''id'', ''properties.mag'']) ! 1 ! 1
      = cell_of (demo_features ! 1) ([''id'', ''properties.mag''] ! 1)"
    using t l by simp
  ultimately show ?thesis using e m by simp
qed

section \<open>Upsert by primary key\<close>

lemma replace_by_key_filter:
  assumes "distinct (map f xs)" and "f n = k" and "k \<in> f ` set xs"
  shows "filter (\<lambda>x. f x = k) (map (\<lambda>x. if f x = k then n else x) xs) = [n]"
  using assms
proof (induction xs)
  case Nil
  then show ?case by simp
next
  case (Cons x xs)
  show ?case
  proof (cases "f x = k")
    case True
    with Cons.prems have "k \<notin> f ` set xs" by auto
    then have "\<And>y. y \<in> set xs \<Longrightarrow> f y \<noteq> k"
      by (metis imageI)
    then have "filter (\<lambda>x. f x = k) (map (\<lambda>x. if f x = k then n else x) xs) = []"
      by (simp add: filter_empty_conv)
    with True Cons.prems show ?thesis by simp
  next
    case False
    with Cons show ?thesis by auto
  qed
qed

lemma replace_by_key_keys:
  "f n = k \<Longrightarrow> map f (map (\<lambda>x. if f x = k then n else x) xs) = map f xs"
  by (induction xs) auto

lemma upsert_row_keys:
  "map (key_of schema) (upsert_row schema r stored) =
     (if key_of schema (conform schema r) \<in> set (map (key_of schema) stored)
      then map (key_of schema) stored
      else map (key_of schema) stored @ [key_of schema (conform schema r)])"
proof -
  have "list_ex (\<lambda>old. key_of schema old = key_of schema (conform schema r)) stored
      \<longleftrightarrow> key_of schema (conform schema r) \<in> set (map (key_of schema) stored)"
    unfolding list_ex_iff set_map by (metis (mono_tags, lifting) image_iff)
  then show ?thesis
    by (simp add: upsert_row_def Let_def replace_by_key_keys)
qed

lemma upsert_row_distinct:
  "distinct (map (key_of schema) stored) \<Longrightarrow>
   distinct (map (key_of schema) (upsert_row schema r stored))"
  by (simp add: upsert_row_keys)

text \<open>A table filled by upserts holds at most one row per key.\<close>

lemma upserts_distinct:
  "distinct (map (key_of schema) stored) \<Longrightarrow>
   distinct (map (key_of schema) (fold (upsert_row schema) rs stored))"
  by (induction rs arbitrary: stored) (simp_all add: upsert_row_distinct)

lemma write_rows_stores_upserts:
  "map_of (database (snd (write_rows t rs w))) (tbl_name t) =
     Some (case map_of (database w) (tbl_name t) of
             Some old \<Rightarrow> old\<lparr>db_rows := fold (upsert_row (tbl_columns t)) rs (db_rows old)\<rparr>
           | None \<Rightarrow> \<lparr>db_schema = tbl_columns t,
                       db_rows = fold (upsert_row (tbl_columns t)) rs []\<rparr>)"
  by (simp add: write_rows_def Let_def update_conv' split: option.splits)

lemma upsert_row_filter:
  assumes "distinct (map (key_of schema) stored)"
  shows "filter (\<lambda>old. key_of schema old = key_of schema (conform schema r))
           (upsert_row schema r stored) = [conform schema r]"
proof (cases "key_of schema (conform schema r) \<in> key_of schema ` set stored")
  case True
  then have "list_ex (\<lambda>old. key_of schema old = key_of schema (conform schema r)) stored"
    unfolding list_ex_iff by (metis (mono_tags, lifting) image_iff)
  then show ?thesis
    using replace_by_key_filter [OF assms refl True]
    by (simp add: upsert_row_def Let_def)
next
  case False
  then have "\<not> list_ex (\<lambda>old. key_of schema old = key_of schema (conform schema r)) stored"
    unfolding list_ex_iff by (metis imageI)
  moreover from False have
    "\<And>old. old \<in> set stored \<Longrightarrow>
       key_of schema old \<noteq> key_of schema (conform schema r)"
    by (metis imageI)
  then have
    "filter (\<lambda>old. key_of schema old = key_of schema (conform schema r)) stored = []"
    by (simp add: filter_empty_conv)
  ultimately show ?thesis
    by (simp add: upsert_row_def Let_def)
qed

text \<open>
  C5. For every table that holds at most one row per primary-key value, and any two rows
  with the same primary-key value: after upserting the first and then the second, the
  table holds exactly one row with that key, and it is the second row (with the schema's
  columns). The first upsert adds a row when the key was absent and none otherwise; the
  second adds none; and the table still holds at most one row per key.
\<close>

theorem upsert_twice_keeps_one_row:
  assumes same: "key_of schema (conform schema r1) = key_of schema (conform schema r2)"
    and pk: "distinct (map (key_of schema) stored)"
  shows "filter (\<lambda>old. key_of schema old = key_of schema (conform schema r2))
           (upsert_row schema r2 (upsert_row schema r1 stored)) = [conform schema r2]
     \<and> length (upsert_row schema r2 (upsert_row schema r1 stored))
         = length (upsert_row schema r1 stored)
     \<and> length (upsert_row schema r1 stored) =
         (if key_of schema (conform schema r1) \<in> set (map (key_of schema) stored)
          then length stored else Suc (length stored))
     \<and> distinct (map (key_of schema) (upsert_row schema r2 (upsert_row schema r1 stored)))"
proof -
  let ?s1 = "upsert_row schema r1 stored"
  have d1: "distinct (map (key_of schema) ?s1)"
    by (rule upsert_row_distinct [OF pk])
  have in1: "key_of schema (conform schema r2) \<in> set (map (key_of schema) ?s1)"
    using same by (simp add: upsert_row_keys)
  have "length (map (key_of schema) (upsert_row schema r2 ?s1))
      = length (map (key_of schema) ?s1)"
    using in1 by (simp only: upsert_row_keys if_True)
  moreover have "length (map (key_of schema) ?s1) =
         (if key_of schema (conform schema r1) \<in> set (map (key_of schema) stored)
          then length stored else Suc (length stored))"
    by (simp only: upsert_row_keys) simp
  ultimately show ?thesis
    using upsert_row_filter [OF d1, of r2] upsert_row_distinct [OF d1, of r2]
    by simp
qed

text \<open>
  The theorem at work: a table holding the event \<^verbatim>\<open>us0\<close> receives the event \<^verbatim>\<open>us1\<close>
  twice, with magnitude 5 and then 6.
\<close>

theorem upsert_twice_keeps_one_row_witness:
  "key_of demo_schema (conform demo_schema [(''id'', JStr ''us1''), (''properties.mag'', JNum 5)])
     = key_of demo_schema
         (conform demo_schema [(''properties.mag'', JNum 6), (''id'', JStr ''us1'')])
   \<and> distinct (map (key_of demo_schema) [[(''id'', JStr ''us0''), (''properties.mag'', JNull)]])
   \<and> upsert_row demo_schema [(''properties.mag'', JNum 6), (''id'', JStr ''us1'')]
        (upsert_row demo_schema [(''id'', JStr ''us1''), (''properties.mag'', JNum 5)]
           [[(''id'', JStr ''us0''), (''properties.mag'', JNull)]])
       = [[(''id'', JStr ''us0''), (''properties.mag'', JNull)],
          [(''id'', JStr ''us1''), (''properties.mag'', JNum 6)]]
   \<and> filter (\<lambda>old. key_of demo_schema old = [Some (JStr ''us1'')])
        (upsert_row demo_schema [(''properties.mag'', JNum 6), (''id'', JStr ''us1'')]
          (upsert_row demo_schema [(''id'', JStr ''us1''), (''properties.mag'', JNum 5)]
             [[(''id'', JStr ''us0''), (''properties.mag'', JNull)]]))
       = [[(''id'', JStr ''us1''), (''properties.mag'', JNum 6)]]"
proof -
  let ?r1 = "[(''id'', JStr ''us1''), (''properties.mag'', JNum 5)]"
  let ?r2 = "[(''properties.mag'', JNum 6), (''id'', JStr ''us1'')]"
  let ?stored = "[[(''id'', JStr ''us0''), (''properties.mag'', JNull)]]"
  have k1: "key_of demo_schema (conform demo_schema ?r1) = [Some (JStr ''us1'')]"
    and k2: "key_of demo_schema (conform demo_schema ?r2) = [Some (JStr ''us1'')]"
    and c2: "conform demo_schema ?r2 = [(''id'', JStr ''us1''), (''properties.mag'', JNum 6)]"
    by (simp_all add: key_of_def conform_def primary_key_of_def demo_schema_def
        Column_def Column_pk_def)
  have d: "distinct (map (key_of demo_schema) ?stored)"
    by simp
  have e: "upsert_row demo_schema ?r2 (upsert_row demo_schema ?r1 ?stored)
       = [[(''id'', JStr ''us0''), (''properties.mag'', JNull)],
          [(''id'', JStr ''us1''), (''properties.mag'', JNum 6)]]"
    by (simp add: upsert_row_def key_of_def conform_def primary_key_of_def demo_schema_def
        Column_def Column_pk_def)
  from upsert_twice_keeps_one_row [of demo_schema ?r1 ?r2 ?stored] k1 k2 d
  have "filter (\<lambda>old. key_of demo_schema old = [Some (JStr ''us1'')])
          (upsert_row demo_schema ?r2 (upsert_row demo_schema ?r1 ?stored))
        = [conform demo_schema ?r2]"
    by simp
  with k1 k2 d e c2 show ?thesis by simp
qed

section \<open>The scheduler loop\<close>







section \<open>The entry point\<close>

text \<open>
  For a path with no dot but the one of its extension, the configuration file is the
  module's path with the extension \<^verbatim>\<open>.yaml\<close>.
\<close>

lemma replace_nonempty_no_dot:
  "CHR ''.'' \<notin> set s \<Longrightarrow> replace_nonempty (s @ t) ''.py'' new = s @ replace_nonempty t ''.py'' new"
  by (induction s) auto

lemma yaml_file_path_of_plain_path:
  assumes "CHR ''.'' \<notin> set stem"
  shows "yaml_file_path (stem @ ''.py'') = stem @ ''.yaml''"
  using replace_nonempty_no_dot [OF assms, of "''.py''" "''.yaml''"]
  by (simp add: yaml_file_path_def str_replace_def)

text \<open>
  When no file is at the computed path, the entry point raises before anything is
  scheduled: the process ends with the exception, the world as it was, for any number of
  iterations the loop would have been given.
\<close>

lemma missing_config_is_fatal:
  assumes "map_of (files w) (yaml_file_path file) = None"
  shows "main n file w =
     (Died (Exception (''Missing '' @ yaml_file_path file @
        '' file! Please create the yaml file with at least a `name` key for the pipeline name.'')),
      w)"
  using assms
  by (simp add: main_def startup_def bind_def os_environ_get_def read_config_def raise_def)

text \<open>
  A whole number of seconds within the range of \<^verbatim>\<open>timedelta\<close> is its own period.
\<close>

lemma timedelta_whole_seconds:
  assumes "- 86399999913600 \<le> n" and "n < 86400000000000"
  shows "timedelta_seconds (JNum n) = Inr (of_int n)"
proof -
  have "(of_int n :: rat) * 1000000 = of_int (n * 1000000)" by simp
  then have "round_half_even (of_int n * 1000000) = n * 1000000"
    unfolding round_half_even_def Let_def by (simp only: floor_of_int) simp
  then show ?thesis
    using assms by (simp add: timedelta_seconds_def Let_def)
qed

text \<open>
  With a configuration at the computed path that names the pipeline and gives
  \<^verbatim>\<open>schedule.run_seconds\<close> as a positive period, the entry point registers the job and
  enters the loop; with a period of zero or less the registration does not return. The
  process as a whole never ends normally either.
\<close>

lemma startup_enters_loop:
  assumes "map_of (files w) (yaml_file_path file) = Some pipeline_config"
    and "dict_get pipeline_config ''name'' = Inr name"
    and "dict_get pipeline_config ''schedule'' = Inr schedule"
    and "dict_get schedule ''run_seconds'' = Inr run_seconds"
    and "timedelta_seconds run_seconds = Inr period"
  shows "\<exists>client. main fuel file w =
     (if 0 < period
      then main_loop fuel pipeline_config
             \<lparr>interval = period, next_run = now w + period, job_pipeline_name = name,
              job_postgresql_logging_client = client, job_pipeline_config = pipeline_config\<rparr> w
      else (Running, w))"
  using assms
  by (simp add: main_def startup_def bind_def os_environ_get_def read_config_def lift_def
      returns_def schedule_every_seconds_do_def next_run_after_def)
     (intro impI exI, rule refl)

text \<open>
  The job the entry point hands to the loop has a positive period and carries the
  configuration the loop reads its poll from.
\<close>

lemma registered_job_is_periodic:
  assumes "startup file w = (Inr (pipeline_config, Some j), w')"
  shows "0 < interval j" and "job_pipeline_config j = pipeline_config"
proof -
  let ?client = "PostgreSqlClient
      (case map_of (environ w) ''LOGGING_SERVER_NAME'' of Some v \<Rightarrow> JStr v | None \<Rightarrow> JNull)
      (case map_of (environ w) ''LOGGING_DATABASE_NAME'' of Some v \<Rightarrow> JStr v | None \<Rightarrow> JNull)
      (case map_of (environ w) ''LOGGING_USERNAME'' of Some v \<Rightarrow> JStr v | None \<Rightarrow> JNull)
      (case map_of (environ w) ''LOGGING_PASSWORD'' of Some v \<Rightarrow> JStr v | None \<Rightarrow> JNull)
      (case map_of (environ w) ''LOGGING_PORT'' of Some v \<Rightarrow> JStr v | None \<Rightarrow> JNull)"
  have s: "startup file w =
      bind (read_config file) (\<lambda>(pipeline_config, PIPELINE_NAME).
      bind (lift (dict_get pipeline_config ''schedule'')) (\<lambda>schedule.
      bind (lift (dict_get schedule ''run_seconds'')) (\<lambda>run_seconds.
      bind (schedule_every_seconds_do run_seconds PIPELINE_NAME ?client pipeline_config)
        (\<lambda>j. returns (pipeline_config, j))))) w"
    by (simp add: startup_def step_os_environ_get)
  obtain r1 w1 where r1: "read_config file w = (r1, w1)" by (cases "read_config file w")
  with s assms obtain c nm where c: "r1 = Inr (c, nm)"
    by (cases r1) (auto simp: bind_def)
  obtain r2 where r2: "dict_get c ''schedule'' = r2" by simp
  with s assms r1 c obtain sch where sch: "r2 = Inr sch"
    by (cases r2) (auto simp: bind_def lift_def)
  obtain r3 where r3: "dict_get sch ''run_seconds'' = r3" by simp
  with s assms r1 c r2 sch obtain rs where rs: "r3 = Inr rs"
    by (cases r3) (auto simp: bind_def lift_def)
  obtain r4 where r4: "timedelta_seconds rs = r4" by simp
  with s assms r1 c r2 sch r3 rs obtain period where period: "r4 = Inr period"
    by (cases r4) (auto simp: bind_def lift_def schedule_every_seconds_do_def)
  from s assms r1 c r2 sch r3 rs r4 period
  have "(case next_run_after period (now w1) of
           None \<Rightarrow> None
         | Some t \<Rightarrow>
             Some \<lparr>interval = period, next_run = t, job_pipeline_name = nm,
                   job_postgresql_logging_client = ?client, job_pipeline_config = c\<rparr>)
        = Some j \<and> c = pipeline_config"
    by (simp add: bind_def lift_def schedule_every_seconds_do_def returns_def)
  then show "0 < interval j" and "job_pipeline_config j = pipeline_config"
    by (auto simp: next_run_after_def split: if_splits)
qed

lemma main_loop_never_exits: "fst (main_loop n pipeline_config j w) \<noteq> Exited"
proof (induction n arbitrary: j w)
  case 0
  show ?case by simp
next
  case (Suc n)
  then show ?case
    by (simp split: prod.splits sum.splits option.splits)
qed

lemma main_never_exits: "fst (main n file w) \<noteq> Exited"
  by (simp add: main_def main_loop_never_exits split: prod.splits sum.splits option.splits)

text \<open>
  C9 at a failing input. \<^verbatim>\<open>__file__.replace(".py", ".yaml")\<close> replaces every
  occurrence of \<^verbatim>\<open>.py\<close>, not only the extension. With the module installed under
  \<^verbatim>\<open>/opt/.pyenv/\<close> and its configuration file beside it, the entry point looks under
  \<^verbatim>\<open>/opt/.yamlenv/\<close>, finds nothing and aborts, although the colocated file exists.
\<close>

theorem config_path_replaces_every_py:
  "yaml_file_path pyenv_file = ''/opt/.yamlenv/etl/earthquakes.yaml''
   \<and> map_of (files pyenv_world) ''/opt/.pyenv/etl/earthquakes.yaml'' = Some demo_config
   \<and> main 3 pyenv_file pyenv_world =
       (Died (Exception (''Missing /opt/.yamlenv/etl/earthquakes.yaml'' @
          '' file! Please create the yaml file with at least a `name` key for the pipeline name.'')),
        pyenv_world)"
proof -
  have y: "yaml_file_path pyenv_file = ''/opt/.yamlenv/etl/earthquakes.yaml''"
    by (simp add: yaml_file_path_def str_replace_def pyenv_file_def)
  have f: "map_of (files pyenv_world) ''/opt/.pyenv/etl/earthquakes.yaml'' = Some demo_config"
    by (simp add: pyenv_world_def quiet_world_def)
  have "map_of (files pyenv_world) (yaml_file_path pyenv_file) = None"
    by (simp add: y) (simp add: pyenv_world_def quiet_world_def)
  from missing_config_is_fatal [OF this, of 3] y f show ?thesis
    by simp
qed


end
